theory Spec2Isabelle
  imports Complex_Main "HOL-Library.AList"
begin

section \<open>Error hierarchy (core/types/errors.ts)\<close>

text \<open>
  The context object handed to the \<open>LLMError\<close> constructor. \<open>statusCode\<close> and \<open>model\<close>
  are optional properties; an absent property is \<open>None\<close>. Status codes are integers
  (the callers obtain them with \<open>parseInt\<close> and drop \<open>NaN\<close>).
\<close>

record LLMErrorContext =
  provider :: string
  statusCode :: "int option"
  model :: "string option"

text \<open>
  JavaScript's \<open>!x\<close> on an optional number: true when the property is absent
  and also when the number is \<open>0\<close>.
\<close>

definition js_not_number :: "int option \<Rightarrow> bool" where
  "js_not_number x = (case x of None \<Rightarrow> True | Some n \<Rightarrow> n = 0)"

text \<open>
  The constructor of \<open>LLMError\<close> computes
  \<^verbatim>\<open>!context.statusCode || context.statusCode === 429 || context.statusCode >= 500\<close>.
  A comparison with an absent status code is false.
\<close>

definition LLMError_retryable :: "LLMErrorContext \<Rightarrow> bool" where
  "LLMError_retryable context =
     (js_not_number (statusCode context)
      \<or> statusCode context = Some 429
      \<or> (case statusCode context of None \<Rightarrow> False | Some c \<Rightarrow> c \<ge> 500))"

section \<open>Content helpers (services/content/ContentReader.ts)\<close>

text \<open>
  Strings are lists of characters and \<open>length\<close> is the string's \<open>.length\<close>.
  \<open>js_slice0 s e\<close> is \<open>s.slice(0, e)\<close>: a negative end counts from the end of the
  string, an end beyond the string stops at the string's end.
\<close>

definition js_slice0 :: "'a list \<Rightarrow> int \<Rightarrow> 'a list" where
  "js_slice0 s e = (if e < 0 then take (nat (int (length s) + e)) s else take (nat e) s)"

text \<open>\<open>s.lastIndexOf(c)\<close>: the greatest index holding \<open>c\<close>, or \<open>-1\<close>.\<close>

definition lastIndexOf :: "'a list \<Rightarrow> 'a \<Rightarrow> int" where
  "lastIndexOf s c =
     (case filter (\<lambda>i. s ! i = c) (rev [0..<length s]) of
        [] \<Rightarrow> - 1
      | i # _ \<Rightarrow> int i)"

definition truncateContent :: "string \<Rightarrow> int \<Rightarrow> string" where
  "truncateContent content maxLength =
     (if int (length content) \<le> maxLength then content
      else
        let truncated = js_slice0 content maxLength;
            lastSpace = lastIndexOf truncated CHR '' ''
        in js_slice0 truncated lastSpace @ ''...'')"

section \<open>Thrown errors\<close>

record SearchErrorContext =
  se_provider :: string
  se_statusCode :: "int option"
  se_query :: "string option"

text \<open>
  What a \<open>throw\<close> carries. The first five constructors are the plain \<open>Error\<close> objects
  of the state machine, whose messages are built from a template and the values kept
  here (\<open>State machine cancelled: ...\<close>, \<open>Max steps (...) exceeded at step ...\<close>,
  \<open>Max duration (...ms) exceeded after ...ms\<close>, \<open>No transition handler for state: ...\<close>,
  \<open>Invalid state: ...\<close>); \<open>Error\<close> is a plain \<open>Error\<close> with a literal message.
  \<open>TypeError_read_only\<close> is the \<open>TypeError\<close> that an assignment to a property of a
  frozen object throws in strict code (\<open>Cannot assign to read only property ...\<close>); it
  keeps the name of the property. \<open>ContentError\<close> keeps its message, its URL and the
  original error when that was an \<open>Error\<close> object.
\<close>

datatype Thrown =
    Error_cancelled "string option"
  | Error_max_steps int int
  | Error_max_duration int int
  | Error_no_handler string
  | Error_invalid_state string
  | Error string
  | TypeError_read_only string
  | ConfigurationError string
  | LLMError string LLMErrorContext
  | SearchError string SearchErrorContext
  | ContentError string string "Thrown option"

section \<open>State manager (core/base/StateManager.ts)\<close>

text \<open>
  Dates are milliseconds (\<open>int\<close>), token and step counts are integers. The two
  dictionaries \<open>urls\<close> and \<open>content\<close> are association lists in insertion order, which
  is the order of \<open>Object.values\<close> and \<open>Object.entries\<close>; assigning to an existing key
  keeps its position (\<open>AList.update\<close>). Keys are taken not to be names of properties
  that every object inherits. Record fields carry a short prefix where two interfaces
  of the source share a field name.
\<close>

record SearchResult =
  sr_url :: string
  sr_title :: string
  sr_snippet :: string
  sr_relevance :: rat
  sr_visited :: bool

record WebContent =
  wc_url :: string
  wc_content :: string
  wc_timestamp :: int

datatype KnowledgeType = qa | search | visit

record KnowledgeItem =
  k_question :: string
  k_answer :: string
  k_type :: KnowledgeType
  k_timestamp :: int

record ResearchMetrics =
  searchCount :: int
  visitCount :: int
  evaluationCount :: int
  errorCount :: int

record Budget =
  b_total :: int
  b_used :: int

record ResearchState =
  query :: string
  step :: int
  startTime :: int
  lastUpdate :: int
  budget :: Budget
  knowledge :: "KnowledgeItem list"
  urls :: "(string \<times> SearchResult) list"
  content :: "(string \<times> WebContent) list"
  metrics :: ResearchMetrics

record StateManagerOptions =
  tokenBudget :: int
  maxKnowledge :: "int option"
  maxUrls :: "int option"

text \<open>
  The manager object: its private \<open>state\<close>, its \<open>options\<close>, and whether the state object
  has been frozen (\<open>Object.freeze\<close>, by Immer). The listener set only observes the state
  and the patch history is never written; both are left out.
\<close>

record StateManager =
  state :: ResearchState
  options :: StateManagerOptions
  frozen :: bool

definition new_StateManager :: "StateManagerOptions \<Rightarrow> int \<Rightarrow> StateManager" where
  "new_StateManager opts now =
     \<lparr>state =
        \<lparr>query = [], step = 0, startTime = now, lastUpdate = now,
         budget = \<lparr>b_total = tokenBudget opts, b_used = 0\<rparr>,
         knowledge = [], urls = [], content = [],
         metrics = \<lparr>searchCount = 0, visitCount = 0, evaluationCount = 0, errorCount = 0\<rparr>\<rparr>,
      options = opts, frozen = False\<rparr>"

text \<open>
  Immer's \<open>produce(base, recipe)\<close> runs the recipe on a draft of \<open>base\<close>. A recipe is modelled
  by the draft it leaves and by whether it has changed the draft: assigning a number or
  a string equal to the old one is no change, assigning a new object or array always is
  one. When the draft was changed \<open>produce\<close> returns the next state and leaves \<open>base\<close>
  as it was; when it was not, \<open>produce\<close> returns \<open>base\<close> itself, and has frozen it. The
  result of \<open>produce\<close> here is the state returned and whether \<open>base\<close> is frozen by the call.
\<close>

definition produce :: "'s \<Rightarrow> ('s \<Rightarrow> 's \<times> bool) \<Rightarrow> 's \<times> bool" where
  "produce base recipe =
     (let (draft, changed) = recipe base
      in if changed then (draft, False) else (base, True))"

text \<open>
  \<open>update\<close> calls \<open>produce\<close> and drops the state it returns; then it assigns \<open>lastUpdate\<close>
  on the state it already had. On a frozen state the assignment throws a \<open>TypeError\<close>
  (the class body is strict code), and the state stays frozen.
\<close>

definition update ::
  "(ResearchState \<Rightarrow> ResearchState \<times> bool) \<Rightarrow> int \<Rightarrow> StateManager
     \<Rightarrow> (Thrown + unit) \<times> StateManager" where
  "update updater now sm =
     (let (produced, freezes) = produce (state sm) updater;
          sm1 = sm\<lparr>frozen := (frozen sm \<or> freezes)\<rparr>
      in if frozen sm1
         then (Inl (TypeError_read_only ''lastUpdate''), sm1)
         else (Inr (), sm1\<lparr>state := (state sm1)\<lparr>lastUpdate := now\<rparr>\<rparr>))"

subsection \<open>The updaters handed to \<open>update\<close>\<close>

definition initialize_updater :: "string \<Rightarrow> ResearchState \<Rightarrow> ResearchState \<times> bool" where
  "initialize_updater q draft =
     (draft\<lparr>query := q, step := 0\<rparr>, q \<noteq> query draft \<or> step draft \<noteq> 0)"

definition addSearchResults_updater ::
  "SearchResult list \<Rightarrow> ResearchState \<Rightarrow> ResearchState \<times> bool" where
  "addSearchResults_updater results draft =
     (let d = foldl (\<lambda>d result.
                 if map_of (urls d) (sr_url result) = None
                 then d\<lparr>urls := AList.update (sr_url result) result (urls d)\<rparr>
                 else d) draft results
      in (d\<lparr>metrics := (metrics d)\<lparr>searchCount := searchCount (metrics d) + 1\<rparr>\<rparr>, True))"

definition markUrlVisited_updater :: "string \<Rightarrow> ResearchState \<Rightarrow> ResearchState \<times> bool" where
  "markUrlVisited_updater u draft =
     (case map_of (urls draft) u of
        None \<Rightarrow> (draft, False)
      | Some r \<Rightarrow>
          (draft\<lparr>urls := AList.update u (r\<lparr>sr_visited := True\<rparr>) (urls draft)\<rparr>, True))"

definition addContent_updater ::
  "string \<Rightarrow> string \<Rightarrow> int \<Rightarrow> ResearchState \<Rightarrow> ResearchState \<times> bool" where
  "addContent_updater u c now draft =
     (draft\<lparr>content := AList.update u \<lparr>wc_url = u, wc_content = c, wc_timestamp = now\<rparr>
                           (content draft),
            metrics := (metrics draft)\<lparr>visitCount := visitCount (metrics draft) + 1\<rparr>\<rparr>,
      True)"

text \<open>
  \<open>js_slice_from xs start\<close> is \<open>xs.slice(start)\<close>: a negative start counts from the end.
\<close>

definition js_slice_from :: "'a list \<Rightarrow> int \<Rightarrow> 'a list" where
  "js_slice_from xs start =
     drop (if start < 0 then nat (int (length xs) + start) else nat start) xs"

definition addKnowledge_updater ::
  "StateManagerOptions \<Rightarrow> string \<Rightarrow> string \<Rightarrow> KnowledgeType \<Rightarrow> int \<Rightarrow> ResearchState
     \<Rightarrow> ResearchState \<times> bool" where
  "addKnowledge_updater opts q a t now draft =
     (let item = \<lparr>k_question = q, k_answer = a, k_type = t, k_timestamp = now\<rparr>;
          d = draft\<lparr>knowledge := knowledge draft @ [item]\<rparr>
      in (case maxKnowledge opts of
            None \<Rightarrow> d
          | Some m \<Rightarrow>
              if m \<noteq> 0 \<and> int (length (knowledge d)) > m
              then d\<lparr>knowledge := js_slice_from (knowledge d) (- m)\<rparr>
              else d,
          True))"

definition trackTokenUsage_updater :: "int \<Rightarrow> ResearchState \<Rightarrow> ResearchState \<times> bool" where
  "trackTokenUsage_updater tokens draft =
     (draft\<lparr>budget := (budget draft)\<lparr>b_used := b_used (budget draft) + tokens\<rparr>\<rparr>,
      tokens \<noteq> 0)"

definition incrementErrorCount_updater :: "ResearchState \<Rightarrow> ResearchState \<times> bool" where
  "incrementErrorCount_updater draft =
     (draft\<lparr>metrics := (metrics draft)\<lparr>errorCount := errorCount (metrics draft) + 1\<rparr>\<rparr>, True)"

definition incrementStep_updater :: "ResearchState \<Rightarrow> ResearchState \<times> bool" where
  "incrementStep_updater draft = (draft\<lparr>step := step draft + 1\<rparr>, True)"

subsection \<open>The mutators\<close>

text \<open>Each returns what the call throws, if anything, and the manager after the call.\<close>

definition initialize :: "string \<Rightarrow> int \<Rightarrow> StateManager \<Rightarrow> (Thrown + unit) \<times> StateManager" where
  "initialize q now sm = update (initialize_updater q) now sm"

definition addSearchResults ::
  "SearchResult list \<Rightarrow> int \<Rightarrow> StateManager \<Rightarrow> (Thrown + unit) \<times> StateManager" where
  "addSearchResults results now sm = update (addSearchResults_updater results) now sm"

definition markUrlVisited :: "string \<Rightarrow> int \<Rightarrow> StateManager \<Rightarrow> (Thrown + unit) \<times> StateManager" where
  "markUrlVisited u now sm = update (markUrlVisited_updater u) now sm"

definition addContent ::
  "string \<Rightarrow> string \<Rightarrow> int \<Rightarrow> StateManager \<Rightarrow> (Thrown + unit) \<times> StateManager" where
  "addContent u c now sm = update (addContent_updater u c now) now sm"

definition addKnowledge ::
  "string \<Rightarrow> string \<Rightarrow> KnowledgeType \<Rightarrow> int \<Rightarrow> StateManager
     \<Rightarrow> (Thrown + unit) \<times> StateManager" where
  "addKnowledge q a t now sm = update (addKnowledge_updater (options sm) q a t now) now sm"

definition trackTokenUsage :: "int \<Rightarrow> int \<Rightarrow> StateManager \<Rightarrow> (Thrown + unit) \<times> StateManager" where
  "trackTokenUsage tokens now sm = update (trackTokenUsage_updater tokens) now sm"

definition incrementErrorCount :: "int \<Rightarrow> StateManager \<Rightarrow> (Thrown + unit) \<times> StateManager" where
  "incrementErrorCount now sm = update incrementErrorCount_updater now sm"

definition incrementStep :: "int \<Rightarrow> StateManager \<Rightarrow> (Thrown + unit) \<times> StateManager" where
  "incrementStep now sm = update incrementStep_updater now sm"

subsection \<open>The readers\<close>

text \<open>
  \<open>isBudgetExhausted\<close> compares \<open>used >= total * 0.85\<close>. On integer token counts up to the
  configured maximum of 10 000 000 this is the comparison \<open>100 * used >= 85 * total\<close>.
\<close>

definition isBudgetExhausted :: "StateManager \<Rightarrow> bool" where
  "isBudgetExhausted sm \<longleftrightarrow>
     100 * b_used (budget (state sm)) \<ge> 85 * b_total (budget (state sm))"

definition getUsedTokens :: "StateManager \<Rightarrow> int" where
  "getUsedTokens sm = b_used (budget (state sm))"

definition getQuery :: "StateManager \<Rightarrow> string" where
  "getQuery sm = query (state sm)"

definition getMetrics :: "StateManager \<Rightarrow> ResearchMetrics" where
  "getMetrics sm = metrics (state sm)"

record Reference =
  ref_url :: string
  ref_quote :: string
  ref_relevance :: "rat option"

definition getReferences :: "nat \<Rightarrow> StateManager \<Rightarrow> Reference list" where
  "getReferences limit sm =
     map (\<lambda>c. \<lparr>ref_url = wc_url c, ref_quote = take 200 (wc_content c) @ ''...'',
                ref_relevance = None\<rparr>)
       (take limit (map snd (content (state sm))))"

record Context =
  ctx_query :: string
  ctx_step :: int
  ctx_knowledge :: "KnowledgeItem list"
  ctx_visitedUrls :: "string list"

definition getContext :: "StateManager \<Rightarrow> Context" where
  "getContext sm =
     \<lparr>ctx_query = query (state sm),
      ctx_step = step (state sm),
      ctx_knowledge = js_slice_from (knowledge (state sm)) (- 10),
      ctx_visitedUrls = map fst (content (state sm))\<rparr>"

text \<open>
  A call of one of the eight mutators, as a value, so that a property can be stated
  for every mutator and for every sequence of calls. Each call comes with the time
  at which it is made. In a sequence the caller goes on after a call that throws.
\<close>

datatype MutatorCall =
    Initialize string
  | AddSearchResults "SearchResult list"
  | MarkUrlVisited string
  | AddContent string string
  | AddKnowledge string string KnowledgeType
  | TrackTokenUsage int
  | IncrementErrorCount
  | IncrementStep

fun call :: "MutatorCall \<Rightarrow> int \<Rightarrow> StateManager \<Rightarrow> (Thrown + unit) \<times> StateManager" where
  "call (Initialize q) now sm = initialize q now sm"
| "call (AddSearchResults rs) now sm = addSearchResults rs now sm"
| "call (MarkUrlVisited u) now sm = markUrlVisited u now sm"
| "call (AddContent u c) now sm = addContent u c now sm"
| "call (AddKnowledge q a t) now sm = addKnowledge q a t now sm"
| "call (TrackTokenUsage n) now sm = trackTokenUsage n now sm"
| "call IncrementErrorCount now sm = incrementErrorCount now sm"
| "call IncrementStep now sm = incrementStep now sm"

fun calls :: "(MutatorCall \<times> int) list \<Rightarrow> StateManager \<Rightarrow> StateManager" where
  "calls [] sm = sm"
| "calls ((c, now) # cs) sm = calls cs (snd (call c now sm))"

section \<open>Generic state machine (core/base/StateMachine.ts)\<close>

text \<open>
  The outside of the machine: \<open>clock n\<close> is the value of the \<open>n\<close>-th reading of the
  clock (\<open>Date.now()\<close>, \<open>new Date()\<close>); \<open>cancelRequests k = Some reason\<close> says that the
  caller calls \<open>cancel(reason)\<close> while the transition that starts at step count \<open>k\<close> is
  awaited; \<open>outlasts k\<close> says that the handler of that transition has not settled when
  the timer of \<open>executeWithTimeout\<close> fires.
\<close>

record Timing =
  clock :: "nat \<Rightarrow> int"
  cancelRequests :: "int \<Rightarrow> string option"
  outlasts :: "int \<Rightarrow> bool"

text \<open>
  The limits are integers: the values \<open>NaN\<close> and \<open>Infinity\<close>, which the class itself
  does not refuse and which \<open>AgentConfigSchema\<close> does, are not represented.
  \<open>onStateChange\<close> is left out: the agent's callback writes a log line.
\<close>

record StateMachineOptions =
  maxSteps :: int
  maxDuration :: int
  timeout :: int

text \<open>
  What the field \<open>currentState\<close> can hold: a state, or the callback that
  \<open>executeWithTimeout\<close> hands to the timer. \<open>setTimeout\<close> of \<open>node:timers/promises\<close>
  takes a delay and a value and resolves with that value, so when the timer wins the
  race the callback itself is what \<open>executeWithTimeout\<close> returns, and \<open>run\<close> stores it
  as the next state. The callback is a function without a \<open>status\<close> property.
\<close>

datatype 's Current = State 's | TimerCallback

record 's TransitionHistoryEntry =
  h_from :: "'s Current"
  h_to :: "'s Current"
  h_timestamp :: int
  h_duration :: int

text \<open>The read-only members of a machine; \<open>'w\<close> is whatever the handlers act on.\<close>

record ('s, 'w) StateMachineSetup =
  sm_options :: StateMachineOptions
  transitionHandlers :: "string \<Rightarrow> ('s \<Rightarrow> int \<Rightarrow> 'w \<Rightarrow> (Thrown + 's) \<times> 'w) option"
  validators :: "string \<Rightarrow> ('s \<Rightarrow> bool) option"
  statusOf :: "'s \<Rightarrow> string"

text \<open>
  The mutable members, and the number of clock readings made so far. \<open>startTime\<close> is
  read from the clock at construction and again at the start of \<open>run\<close>; a new machine
  is given the value 0 until then.
\<close>

record 's StateMachine =
  currentState :: "'s Current"
  history :: "'s TransitionHistoryEntry list"
  machine_startTime :: int
  stepCount :: int
  isCancelled :: bool
  cancelReason :: "string option"
  clockReads :: nat

definition new_StateMachine :: "'s \<Rightarrow> 's StateMachine" where
  "new_StateMachine initialState =
     \<lparr>currentState = State initialState, history = [], machine_startTime = 0, stepCount = 0,
      isCancelled = False, cancelReason = None, clockReads = 0\<rparr>"

definition tick :: "'s StateMachine \<Rightarrow> 's StateMachine" where
  "tick ms = ms\<lparr>clockReads := Suc (clockReads ms)\<rparr>"

text \<open>\<open>(state as {status: string}).status\<close>: \<open>None\<close> is \<open>undefined\<close>.\<close>

definition statusOfCurrent :: "('s, 'w) StateMachineSetup \<Rightarrow> 's Current \<Rightarrow> string option" where
  "statusOfCurrent M c = (case c of State s \<Rightarrow> Some (statusOf M s) | TimerCallback \<Rightarrow> None)"

definition machine_isTerminal :: "('s, 'w) StateMachineSetup \<Rightarrow> 's Current \<Rightarrow> bool" where
  "machine_isTerminal M c \<longleftrightarrow>
     (case statusOfCurrent M c of
        Some st \<Rightarrow> st \<in> set [''completed'', ''failed'', ''cancelled'']
      | None \<Rightarrow> False)"

definition cancel :: "string \<Rightarrow> 's StateMachine \<Rightarrow> 's StateMachine" where
  "cancel reason ms = ms\<lparr>isCancelled := True, cancelReason := Some reason\<rparr>"

definition receiveCancel :: "Timing \<Rightarrow> 's StateMachine \<Rightarrow> 's StateMachine" where
  "receiveCancel T ms =
     (case cancelRequests T (stepCount ms) of None \<Rightarrow> ms | Some reason \<Rightarrow> cancel reason ms)"

definition checkTerminationConditions ::
  "StateMachineOptions \<Rightarrow> Timing \<Rightarrow> 's StateMachine \<Rightarrow> (Thrown + unit) \<times> 's StateMachine" where
  "checkTerminationConditions opts T ms =
     (if stepCount ms \<ge> maxSteps opts
      then (Inl (Error_max_steps (maxSteps opts) (stepCount ms)), ms)
      else
        let elapsed = clock T (clockReads ms) - machine_startTime ms;
            ms1 = tick ms
        in if elapsed > maxDuration opts
           then (Inl (Error_max_duration (maxDuration opts) elapsed), ms1)
           else (Inr (), ms1))"

definition recordTransition ::
  "Timing \<Rightarrow> 's Current \<Rightarrow> 's Current \<Rightarrow> int \<Rightarrow> 's StateMachine \<Rightarrow> 's StateMachine" where
  "recordTransition T from_state to_state duration ms =
     (let entry = \<lparr>h_from = from_state, h_to = to_state,
                   h_timestamp = clock T (clockReads ms), h_duration = duration\<rparr>;
          pushed = history ms @ [entry]
      in (tick ms)\<lparr>history := (if length pushed > 100 then tl pushed else pushed)\<rparr>)"

text \<open>
  \<open>executeWithTimeout\<close> races the handler against the timer. When the handler settles
  first, its state is returned or its error thrown. When the timer fires first, the
  race resolves with the timer's value, the callback, whatever the handler does later:
  its state or error is dropped. The handler goes on by itself, so the world returned
  here is the one its function gives; for a handler that has not finished, or never
  does, this stands for what it has done so far. \<open>clearTimeout\<close> of a promise does
  nothing.
\<close>

definition executeWithTimeout ::
  "bool \<Rightarrow> (Thrown + 's) \<times> 'w \<Rightarrow> (Thrown + 's Current) \<times> 'w" where
  "executeWithTimeout timerFirst settled =
     (let (r, w') = settled
      in if timerFirst then (Inr TimerCallback, w')
         else (case r of Inl e \<Rightarrow> (Inl e, w') | Inr s \<Rightarrow> (Inr (State s), w')))"

text \<open>
  One pass through the body of the \<open>while\<close> loop of \<open>run\<close>: \<open>Inr ()\<close> when the pass
  reaches its end (the state is updated and the step count incremented), \<open>Inl e\<close> when
  it throws \<open>e\<close>. A current state without a \<open>status\<close> has no handler:
  \<open>transitionHandlers.get(undefined)\<close> is \<open>undefined\<close>, and the message names the state
  \<open>undefined\<close>.
\<close>

definition run_iteration ::
  "('s, 'w) StateMachineSetup \<Rightarrow> Timing \<Rightarrow> 's StateMachine \<Rightarrow> 'w
     \<Rightarrow> (Thrown + unit) \<times> 's StateMachine \<times> 'w" where
  "run_iteration M T ms w =
     (if isCancelled ms then (Inl (Error_cancelled (cancelReason ms)), ms, w)
      else
        (case checkTerminationConditions (sm_options M) T ms of
          (Inl e, ms1) \<Rightarrow> (Inl e, ms1, w)
        | (Inr _, ms1) \<Rightarrow>
            (case currentState ms1 of
               TimerCallback \<Rightarrow> (Inl (Error_no_handler ''undefined''), ms1, w)
             | State s \<Rightarrow>
                (let status = statusOf M s in
                 (case transitionHandlers M status of
                    None \<Rightarrow> (Inl (Error_no_handler status), ms1, w)
                  | Some handler \<Rightarrow>
                      if (case validators M status of
                            None \<Rightarrow> False
                          | Some validator \<Rightarrow> \<not> validator s)
                      then (Inl (Error_invalid_state status), ms1, w)
                      else
                        (let transitionStart = clock T (clockReads ms1);
                             ms2 = tick ms1;
                             (r, w') = executeWithTimeout (outlasts T (stepCount ms2))
                                         (handler s transitionStart w);
                             ms3 = receiveCancel T ms2
                         in (case r of
                               Inl e \<Rightarrow> (Inl e, ms3, w')
                             | Inr nextState \<Rightarrow>
                                 (let duration = clock T (clockReads ms3) - transitionStart;
                                      ms4 = recordTransition T (currentState ms3) nextState
                                              duration (tick ms3)
                                  in (Inr (),
                                      ms4\<lparr>currentState := nextState,
                                          stepCount := stepCount ms4 + 1\<rparr>,
                                      w')))))))))"

lemma run_iteration_steps:
  assumes "run_iteration M T ms w = (Inr u, ms', w')"
  shows "stepCount ms < maxSteps (sm_options M) \<and> stepCount ms' = stepCount ms + 1"
  using assms
  by (auto simp: run_iteration_def checkTerminationConditions_def recordTransition_def tick_def
        receiveCancel_def cancel_def executeWithTimeout_def Let_def
      split: if_splits option.splits sum.splits prod.splits Current.splits)

function run_loop ::
  "('s, 'w) StateMachineSetup \<Rightarrow> Timing \<Rightarrow> 's StateMachine \<Rightarrow> 'w
     \<Rightarrow> (Thrown + 's Current) \<times> 's StateMachine \<times> 'w" where
  "run_loop M T ms w =
     (if machine_isTerminal M (currentState ms) then (Inr (currentState ms), ms, w)
      else
        case run_iteration M T ms w of
          (Inl e, ms', w') \<Rightarrow> (Inl e, ms', w')
        | (Inr _, ms', w') \<Rightarrow> run_loop M T ms' w')"
  by pat_completeness auto
termination
  by (relation "measure (\<lambda>(M, T, ms, w). nat (maxSteps (sm_options M) - stepCount ms))")
     (auto dest!: run_iteration_steps [OF sym])

declare run_loop.simps [simp del]

definition run ::
  "('s, 'w) StateMachineSetup \<Rightarrow> Timing \<Rightarrow> 's StateMachine \<Rightarrow> 'w
     \<Rightarrow> (Thrown + 's Current) \<times> 's StateMachine \<times> 'w" where
  "run M T ms w =
     run_loop M T ((tick ms)\<lparr>machine_startTime := clock T (clockReads ms)\<rparr>) w"

definition getElapsedTime :: "Timing \<Rightarrow> 's StateMachine \<Rightarrow> int \<times> 's StateMachine" where
  "getElapsedTime T ms = (clock T (clockReads ms) - machine_startTime ms, tick ms)"

text \<open>
  The exported factory \<open>createStateMachine\<close> for any state type with a \<open>status\<close>: the
  handler and validator records become maps. The agent's private method of the same
  name is \<open>createStateMachine\<close> below.
\<close>

definition createStateMachine_generic ::
  "StateMachineOptions \<Rightarrow> (string \<times> ('s \<Rightarrow> int \<Rightarrow> 'w \<Rightarrow> (Thrown + 's) \<times> 'w)) list
     \<Rightarrow> (string \<times> ('s \<Rightarrow> bool)) list \<Rightarrow> ('s \<Rightarrow> string) \<Rightarrow> ('s, 'w) StateMachineSetup" where
  "createStateMachine_generic opts handlers vals st =
     \<lparr>sm_options = opts, transitionHandlers = map_of handlers, validators = map_of vals,
      statusOf = st\<rparr>"

section \<open>Agent states and actions (core/types/agent.ts, core/types/actions.ts)\<close>

record InitializationContext =
  ic_query :: string
  ic_startTime :: int

text \<open>
  The discriminated union \<open>AgentState\<close>; \<open>status\<close> gives the discriminator. The
  arguments are the fields in the order of the source (\<open>step\<close> then \<open>query\<close>, \<open>url\<close>,
  \<open>answer\<close> or \<open>feedback\<close>; \<open>answer\<close> then \<open>references\<close>; \<open>error\<close>; \<open>reason\<close>).
\<close>

datatype AgentState =
    Idle
  | Initializing InitializationContext
  | Searching int string
  | Reading int string
  | Evaluating int string
  | Reflecting int string
  | Completed string "Reference list"
  | Failed string
  | Cancelled string

fun status :: "AgentState \<Rightarrow> string" where
  "status Idle = ''idle''"
| "status (Initializing _) = ''initializing''"
| "status (Searching _ _) = ''searching''"
| "status (Reading _ _) = ''reading''"
| "status (Evaluating _ _) = ''evaluating''"
| "status (Reflecting _ _) = ''reflecting''"
| "status (Completed _ _) = ''completed''"
| "status (Failed _) = ''failed''"
| "status (Cancelled _) = ''cancelled''"

definition isTerminal :: "AgentState \<Rightarrow> bool" where
  "isTerminal s \<longleftrightarrow>
     status s = ''completed'' \<or> status s = ''failed'' \<or> status s = ''cancelled''"

definition isIdle :: "AgentState \<Rightarrow> bool" where
  "isIdle s \<longleftrightarrow> status s = ''idle''"

definition isInitializing :: "AgentState \<Rightarrow> bool" where
  "isInitializing s \<longleftrightarrow> status s = ''initializing''"

definition isSearching :: "AgentState \<Rightarrow> bool" where
  "isSearching s \<longleftrightarrow> status s = ''searching''"

definition isReading :: "AgentState \<Rightarrow> bool" where
  "isReading s \<longleftrightarrow> status s = ''reading''"

definition isEvaluating :: "AgentState \<Rightarrow> bool" where
  "isEvaluating s \<longleftrightarrow> status s = ''evaluating''"

definition isReflecting :: "AgentState \<Rightarrow> bool" where
  "isReflecting s \<longleftrightarrow> status s = ''reflecting''"

text \<open>
  The actions, with the fields the handlers read: the query strings of a search
  action, the URLs of a visit action, the answer and references of an answer action.
\<close>

datatype AgentAction =
    SearchAction "string list"
  | VisitAction "string list"
  | AnswerAction string "Reference list"
  | ReflectAction
  | CodingAction

record AgentConfig =
  cfg_tokenBudget :: int
  cfg_maxSteps :: int
  cfg_maxDuration :: int
  maxBadAttempts :: int
  cfg_timeout :: int
  enableTelemetry :: bool

record ResearchResult =
  rr_query :: string
  rr_answer :: string
  rr_references :: "Reference list"
  rr_metrics :: ResearchMetrics
  rr_duration :: int
  rr_steps :: int

section \<open>The services the agent calls\<close>

text \<open>
  What the agent sends to \<open>llmProvider.generate\<close>: the four prompts of the source, each
  with the data it is built from (the decision prompt from the whole context, the
  extraction prompt from the URL only, the continue prompt from the query and the
  number of context knowledge items, the final-answer prompt from the query and the
  context knowledge items).
\<close>

datatype Prompt =
    DecisionPrompt Context
  | ExtractKnowledgePrompt string
  | ContinuePrompt string nat
  | FinalAnswerPrompt string "KnowledgeItem list"

text \<open>
  The outcome of a call: a value, or a thrown error. For the LLM and the search
  provider the error is kept as the status that \<open>parseInt(error.status)\<close> finds on it,
  if any; for the content reader as the error itself when it is an \<open>Error\<close> object,
  and \<open>None\<close> when something else was thrown.
\<close>

datatype LLMOutcome = Generated string | GenerateFailed "int option"

record ProviderSearchResult =
  pr_url :: string
  pr_title :: string
  pr_snippet :: string
  pr_relevance :: "rat option"

datatype SearchOutcome = Found "ProviderSearchResult list" | SearchFailed "int option"

datatype ReadOutcome = ReadOk string | ReadFailed "Thrown option"

text \<open>
  Each service answers its \<open>n\<close>-th call as it likes: the outcome is a function of the
  number of earlier calls and of the argument. \<open>JSON_parse\<close> is \<open>JSON.parse\<close> followed by
  the unchecked cast to \<open>AgentAction\<close>: \<open>None\<close> when the text is not JSON. A parsed
  value is taken to have the fields of its action type; one with another type tag, or
  with none, takes the same branches as a reflect or coding action.
\<close>

record LLMProvider =
  llm_name :: string
  llm_model :: string
  generate :: "nat \<Rightarrow> Prompt \<Rightarrow> LLMOutcome"

record ResearchAgentOptions =
  llmProvider :: LLMProvider
  searchProvider :: "nat \<Rightarrow> string \<Rightarrow> SearchOutcome"
  contentReader :: "nat \<Rightarrow> string \<Rightarrow> ReadOutcome"
  JSON_parse :: "string \<Rightarrow> AgentAction option"

text \<open>What the handlers act on: the state manager, and how often each service was called.\<close>

record AgentWorld =
  stateManager :: StateManager
  llmCalls :: nat
  searchCalls :: nat
  readCalls :: nat

definition manage ::
  "(StateManager \<Rightarrow> (Thrown + unit) \<times> StateManager) \<Rightarrow> AgentWorld
     \<Rightarrow> (Thrown + unit) \<times> AgentWorld" where
  "manage f w = (let (r, sm) = f (stateManager w) in (r, w\<lparr>stateManager := sm\<rparr>))"

definition call_generate :: "ResearchAgentOptions \<Rightarrow> Prompt \<Rightarrow> AgentWorld \<Rightarrow> LLMOutcome \<times> AgentWorld" where
  "call_generate P prompt w =
     (generate (llmProvider P) (llmCalls w) prompt, w\<lparr>llmCalls := Suc (llmCalls w)\<rparr>)"

definition call_search :: "ResearchAgentOptions \<Rightarrow> string \<Rightarrow> AgentWorld \<Rightarrow> SearchOutcome \<times> AgentWorld" where
  "call_search P q w = (searchProvider P (searchCalls w) q, w\<lparr>searchCalls := Suc (searchCalls w)\<rparr>)"

definition call_read :: "ResearchAgentOptions \<Rightarrow> string \<Rightarrow> AgentWorld \<Rightarrow> ReadOutcome \<times> AgentWorld" where
  "call_read P u w = (contentReader P (readCalls w) u, w\<lparr>readCalls := Suc (readCalls w)\<rparr>)"

section \<open>Research agent (class \<open>ResearchAgent\<close>)\<close>

definition llmErrorContext :: "ResearchAgentOptions \<Rightarrow> int option \<Rightarrow> LLMErrorContext" where
  "llmErrorContext P st =
     \<lparr>provider = llm_name (llmProvider P), statusCode = st,
      model = Some (llm_model (llmProvider P))\<rparr>"

text \<open>
  \<open>content.match(/\{[\s\S]*\}/)\<close>: the text from the first opening brace to the last
  closing brace after it, if there is one.
\<close>

definition jsonMatch :: "string \<Rightarrow> string option" where
  "jsonMatch response =
     (let rest = dropWhile (\<lambda>c. c \<noteq> CHR ''{'') response
      in if CHR ''}'' \<in> set rest
         then Some (rev (dropWhile (\<lambda>c. c \<noteq> CHR ''}'') (rev rest)))
         else None)"

definition parseAction :: "ResearchAgentOptions \<Rightarrow> StateManager \<Rightarrow> string \<Rightarrow> Thrown + AgentAction" where
  "parseAction P sm response =
     (case jsonMatch response of
        Some j \<Rightarrow>
          (case JSON_parse P j of
             Some parsed \<Rightarrow> Inr parsed
           | None \<Rightarrow> Inl (LLMError ''Failed to parse action'' (llmErrorContext P None)))
      | None \<Rightarrow> Inr (SearchAction [getQuery sm]))"

text \<open>
  \<open>parseAction\<close> runs inside the \<open>try\<close> of \<open>decideNextAction\<close>, so its error is caught
  there too and replaced; an \<open>LLMError\<close> has no \<open>status\<close> property.
\<close>

definition decideNextAction :: "ResearchAgentOptions \<Rightarrow> AgentWorld \<Rightarrow> (Thrown + AgentAction) \<times> AgentWorld" where
  "decideNextAction P w =
     (let context = getContext (stateManager w);
          (response, w1) = call_generate P (DecisionPrompt context) w
      in case response of
           Generated c \<Rightarrow>
             (case parseAction P (stateManager w1) c of
                Inr action \<Rightarrow> (Inr action, w1)
              | Inl _ \<Rightarrow>
                  (Inl (LLMError ''Failed to decide next action'' (llmErrorContext P None)), w1))
         | GenerateFailed st \<Rightarrow>
             (Inl (LLMError ''Failed to decide next action'' (llmErrorContext P st)), w1))"

definition extractKnowledge ::
  "ResearchAgentOptions \<Rightarrow> string \<Rightarrow> string \<Rightarrow> AgentWorld \<Rightarrow> (Thrown + string) \<times> AgentWorld" where
  "extractKnowledge P page u w =
     (let (response, w1) = call_generate P (ExtractKnowledgePrompt u) w
      in case response of
           Generated c \<Rightarrow> (Inr c, w1)
         | GenerateFailed st \<Rightarrow>
             (Inl (LLMError ''Failed to extract knowledge'' (llmErrorContext P st)), w1))"

text \<open>\<open>toLowerCase\<close> on the letters A to Z, and \<open>s.includes(pat)\<close>.\<close>

definition toLowerCase :: "string \<Rightarrow> string" where
  "toLowerCase s =
     map (\<lambda>c. if 65 \<le> (of_char c :: nat) \<and> (of_char c :: nat) \<le> 90
               then char_of (of_char c + 32 :: nat) else c) s"

fun js_includes :: "'a list \<Rightarrow> 'a list \<Rightarrow> bool" where
  "js_includes [] pat = (pat = [])"
| "js_includes (c # cs) pat = (take (length pat) (c # cs) = pat \<or> js_includes cs pat)"

definition shouldContinueResearch ::
  "AgentConfig \<Rightarrow> ResearchAgentOptions \<Rightarrow> AgentWorld \<Rightarrow> bool \<times> AgentWorld" where
  "shouldContinueResearch cfg P w =
     (let ms = getMetrics (stateManager w)
      in if isBudgetExhausted (stateManager w) then (False, w)
         else if errorCount ms \<ge> maxBadAttempts cfg then (False, w)
         else
           (let context = getContext (stateManager w);
                (response, w1) =
                   call_generate P
                     (ContinuePrompt (ctx_query context) (length (ctx_knowledge context))) w
            in case response of
                 Generated c \<Rightarrow> (\<not> js_includes (toLowerCase c) ''yes'', w1)
               | GenerateFailed _ \<Rightarrow> (False, w1)))"

definition generateFinalAnswer ::
  "ResearchAgentOptions \<Rightarrow> AgentWorld \<Rightarrow> (Thrown + string \<times> Reference list) \<times> AgentWorld" where
  "generateFinalAnswer P w =
     (let context = getContext (stateManager w);
          references = getReferences 10 (stateManager w);
          (response, w1) =
             call_generate P (FinalAnswerPrompt (ctx_query context) (ctx_knowledge context)) w
      in case response of
           Generated c \<Rightarrow> (Inr (c, references), w1)
         | GenerateFailed st \<Rightarrow>
             (Inl (LLMError ''Failed to generate final answer'' (llmErrorContext P st)), w1))"

subsection \<open>The transition handlers\<close>

text \<open>
  A handler gets the current state, the time at which its transition starts and the
  agent's world, and returns the next state or the error it throws, together with the
  world it leaves. Every timestamp taken inside a transition is the transition's
  start time.
\<close>

definition handleIdle ::
  "AgentConfig \<Rightarrow> ResearchAgentOptions \<Rightarrow> AgentState \<Rightarrow> int \<Rightarrow> AgentWorld
     \<Rightarrow> (Thrown + AgentState) \<times> AgentWorld" where
  "handleIdle cfg P st now w =
     (if \<not> isIdle st then (Inl (Error ''Invalid state for idle handler''), w)
      else
        let q = getQuery (stateManager w)
        in if q = [] then (Inl (ConfigurationError ''Query not initialized''), w)
           else (Inr (Initializing \<lparr>ic_query = q, ic_startTime = now\<rparr>), w))"

definition handleInitializing ::
  "AgentConfig \<Rightarrow> ResearchAgentOptions \<Rightarrow> AgentState \<Rightarrow> int \<Rightarrow> AgentWorld
     \<Rightarrow> (Thrown + AgentState) \<times> AgentWorld" where
  "handleInitializing cfg P st now w =
     (case st of
        Initializing context \<Rightarrow>
          (let (stepped, w1) = manage (incrementStep now) w
           in (case stepped of
                 Inl e \<Rightarrow> (Inl e, w1)
               | Inr _ \<Rightarrow> (Inr (Searching 1 (ic_query context)), w1)))
      | _ \<Rightarrow> (Inl (Error ''Invalid state for initializing handler''), w))"

text \<open>\<open>queries[0]?.query || fallback\<close>: the first query unless it is missing or empty.\<close>

definition first_query_or :: "string list \<Rightarrow> string \<Rightarrow> string" where
  "first_query_or queries fallback =
     (case queries of [] \<Rightarrow> fallback | q # _ \<Rightarrow> if q = [] then fallback else q)"

text \<open>The search results in the state manager's format (\<open>relevance ?? 0.5\<close>).\<close>

definition convertedResults :: "ProviderSearchResult list \<Rightarrow> SearchResult list" where
  "convertedResults results =
     map (\<lambda>r. \<lparr>sr_url = pr_url r, sr_title = pr_title r, sr_snippet = pr_snippet r,
                sr_relevance = (case pr_relevance r of None \<Rightarrow> 1 / 2 | Some x \<Rightarrow> x),
                sr_visited = False\<rparr>) results"

text \<open>
  The \<open>try\<close> block of \<open>handleSearching\<close>: the next state, or, when something is thrown
  inside the block, the status that the \<open>catch\<close> block reads from it. The search
  provider's error has the status it has; a \<open>TypeError\<close> of the state manager, the
  \<open>LLMError\<close> of \<open>decideNextAction\<close> and the \<open>No URLs to visit\<close> error have no \<open>status\<close>.
\<close>

definition handleSearching_try ::
  "ResearchAgentOptions \<Rightarrow> int \<Rightarrow> string \<Rightarrow> int \<Rightarrow> AgentWorld
     \<Rightarrow> (int option + AgentState) \<times> AgentWorld" where
  "handleSearching_try P n q now w =
     (let (found, w1) = call_search P q w
      in (case found of
            SearchFailed code \<Rightarrow> (Inl code, w1)
          | Found results \<Rightarrow>
              (let (added, w2) = manage (addSearchResults (convertedResults results) now) w1
               in (case added of
                     Inl _ \<Rightarrow> (Inl None, w2)
                   | Inr _ \<Rightarrow>
                       (let (decided, w3) = decideNextAction P w2
                        in (case decided of
                              Inl _ \<Rightarrow> (Inl None, w3)
                            | Inr action \<Rightarrow>
                                (case action of
                                   VisitAction us \<Rightarrow>
                                     (case us of
                                        [] \<Rightarrow> (Inl None, w3)
                                      | firstUrl # _ \<Rightarrow> (Inr (Reading n firstUrl), w3))
                                 | SearchAction queries \<Rightarrow>
                                     (Inr (Searching (n + 1) (first_query_or queries q)), w3)
                                 | AnswerAction a refs \<Rightarrow> (Inr (Evaluating n a), w3)
                                 | _ \<Rightarrow> (Inr (Searching (n + 1) q), w3))))))))"

text \<open>
  The \<open>catch\<close> block of \<open>handleSearching\<close>: the error is counted and replaced by a
  \<open>SearchError\<close>, which is thrown; when counting throws, that error leaves the handler
  instead.
\<close>

definition handleSearching_catch ::
  "string \<Rightarrow> int option \<Rightarrow> int \<Rightarrow> AgentWorld \<Rightarrow> (Thrown + AgentState) \<times> AgentWorld" where
  "handleSearching_catch q st now w =
     (let (counted, w1) = manage (incrementErrorCount now) w
      in (case counted of
            Inl e \<Rightarrow> (Inl e, w1)
          | Inr _ \<Rightarrow>
              (Inl (SearchError ''Search failed''
                      \<lparr>se_provider = ''search'', se_statusCode = st, se_query = Some q\<rparr>),
               w1)))"

definition handleSearching ::
  "AgentConfig \<Rightarrow> ResearchAgentOptions \<Rightarrow> AgentState \<Rightarrow> int \<Rightarrow> AgentWorld
     \<Rightarrow> (Thrown + AgentState) \<times> AgentWorld" where
  "handleSearching cfg P st now w =
     (case st of
        Searching n q \<Rightarrow>
          (let (r, w1) = handleSearching_try P n q now w
           in (case r of
                 Inl code \<Rightarrow> handleSearching_catch q code now w1
               | Inr next \<Rightarrow> (Inr next, w1)))
      | _ \<Rightarrow> (Inl (Error ''Invalid state for searching handler''), w))"

text \<open>
  The \<open>try\<close> block of \<open>handleReading\<close>: the next state, or what is thrown inside the
  block, as \<open>error instanceof Error ? error : undefined\<close> gives it to the \<open>catch\<close> block.
\<close>

definition handleReading_try ::
  "ResearchAgentOptions \<Rightarrow> int \<Rightarrow> string \<Rightarrow> int \<Rightarrow> AgentWorld
     \<Rightarrow> (Thrown option + AgentState) \<times> AgentWorld" where
  "handleReading_try P n u now w =
     (let (got, w1) = call_read P u w
      in (case got of
            ReadFailed original \<Rightarrow> (Inl original, w1)
          | ReadOk page \<Rightarrow>
              (let (marked, w2) = manage (markUrlVisited u now) w1
               in (case marked of
                     Inl e \<Rightarrow> (Inl (Some e), w2)
                   | Inr _ \<Rightarrow>
                       (let (added, w3) = manage (addContent u page now) w2
                        in (case added of
                              Inl e \<Rightarrow> (Inl (Some e), w3)
                            | Inr _ \<Rightarrow>
                                (let (extracted, w4) = extractKnowledge P page u w3
                                 in (case extracted of
                                       Inl e \<Rightarrow> (Inl (Some e), w4)
                                     | Inr k \<Rightarrow>
                                         (let (known, w5) = manage (addKnowledge u k visit now) w4
                                          in (case known of
                                                Inl e \<Rightarrow> (Inl (Some e), w5)
                                              | Inr _ \<Rightarrow>
                                                  (Inr (Evaluating n (''Visited '' @ u)),
                                                   w5)))))))))))"

definition handleReading_catch ::
  "string \<Rightarrow> Thrown option \<Rightarrow> int \<Rightarrow> AgentWorld \<Rightarrow> (Thrown + AgentState) \<times> AgentWorld" where
  "handleReading_catch u original now w =
     (let (counted, w1) = manage (incrementErrorCount now) w
      in (case counted of
            Inl e \<Rightarrow> (Inl e, w1)
          | Inr _ \<Rightarrow> (Inl (ContentError ''Failed to read content'' u original), w1)))"

definition handleReading ::
  "AgentConfig \<Rightarrow> ResearchAgentOptions \<Rightarrow> AgentState \<Rightarrow> int \<Rightarrow> AgentWorld
     \<Rightarrow> (Thrown + AgentState) \<times> AgentWorld" where
  "handleReading cfg P st now w =
     (case st of
        Reading n u \<Rightarrow>
          (let (r, w1) = handleReading_try P n u now w
           in (case r of
                 Inl original \<Rightarrow> handleReading_catch u original now w1
               | Inr next \<Rightarrow> (Inr next, w1)))
      | _ \<Rightarrow> (Inl (Error ''Invalid state for reading handler''), w))"

definition handleEvaluating ::
  "AgentConfig \<Rightarrow> ResearchAgentOptions \<Rightarrow> AgentState \<Rightarrow> int \<Rightarrow> AgentWorld
     \<Rightarrow> (Thrown + AgentState) \<times> AgentWorld" where
  "handleEvaluating cfg P st now w =
     (case st of
        Evaluating n a \<Rightarrow>
          (let (shouldContinue, w1) = shouldContinueResearch cfg P w
           in if shouldContinue then (Inr (Reflecting n ''Evaluating progress''), w1)
              else
                (let (finalAnswer, w2) = generateFinalAnswer P w1
                 in (case finalAnswer of
                       Inl e \<Rightarrow> (Inl e, w2)
                     | Inr (answer, refs) \<Rightarrow> (Inr (Completed answer refs), w2))))
      | _ \<Rightarrow> (Inl (Error ''Invalid state for evaluating handler''), w))"

definition handleReflecting ::
  "AgentConfig \<Rightarrow> ResearchAgentOptions \<Rightarrow> AgentState \<Rightarrow> int \<Rightarrow> AgentWorld
     \<Rightarrow> (Thrown + AgentState) \<times> AgentWorld" where
  "handleReflecting cfg P st now w =
     (case st of
        Reflecting n feedback \<Rightarrow>
          (let (decided, w1) = decideNextAction P w
           in (case decided of
                 Inl e \<Rightarrow> (Inl e, w1)
               | Inr action \<Rightarrow>
                   (case action of
                      SearchAction queries \<Rightarrow>
                        (Inr (Searching (n + 1)
                                (first_query_or queries (getQuery (stateManager w1)))), w1)
                    | VisitAction us \<Rightarrow>
                        (case us of
                           [] \<Rightarrow> (Inl (Error ''No URLs to visit''), w1)
                         | firstUrl # _ \<Rightarrow> (Inr (Reading n firstUrl), w1))
                    | AnswerAction a refs \<Rightarrow> (Inr (Completed a refs), w1)
                    | _ \<Rightarrow>
                        (let (finalAnswer, w2) = generateFinalAnswer P w1
                         in (case finalAnswer of
                               Inl e \<Rightarrow> (Inl e, w2)
                             | Inr (answer, refs) \<Rightarrow> (Inr (Completed answer refs), w2))))))
      | _ \<Rightarrow> (Inl (Error ''Invalid state for reflecting handler''), w))"

subsection \<open>The agent\<close>

definition createStateMachine ::
  "AgentConfig \<Rightarrow> ResearchAgentOptions \<Rightarrow> (AgentState, AgentWorld) StateMachineSetup" where
  "createStateMachine cfg P =
     \<lparr>sm_options =
        \<lparr>maxSteps = cfg_maxSteps cfg, maxDuration = cfg_maxDuration cfg,
         timeout = cfg_timeout cfg\<rparr>,
      transitionHandlers =
        map_of [(''idle'', handleIdle cfg P),
                (''initializing'', handleInitializing cfg P),
                (''searching'', handleSearching cfg P),
                (''reading'', handleReading cfg P),
                (''evaluating'', handleEvaluating cfg P),
                (''reflecting'', handleReflecting cfg P)],
      validators =
        map_of [(''idle'', isIdle),
                (''initializing'', isInitializing),
                (''searching'', isSearching),
                (''reading'', isReading),
                (''evaluating'', isEvaluating),
                (''reflecting'', isReflecting)],
      statusOf = status\<rparr>"

text \<open>Everything thrown here is an \<open>Error\<close> object, which \<open>handleError\<close> returns as it is.\<close>

definition handleError :: "Thrown \<Rightarrow> Thrown" where
  "handleError e = e"

text \<open>
  \<open>buildResult\<close> is typed for terminal states and \<open>research\<close> calls it on those only;
  its last branch is the cancelled one.
\<close>

definition buildResult ::
  "Timing \<Rightarrow> AgentState \<Rightarrow> AgentState StateMachine \<Rightarrow> AgentWorld
     \<Rightarrow> ResearchResult \<times> AgentState StateMachine" where
  "buildResult T st ms w =
     (let (elapsed, ms1) = getElapsedTime T ms;
          (answer, refs) =
            (case st of
               Completed a rs \<Rightarrow> (a, rs)
             | Failed e \<Rightarrow> (''Research failed: '' @ e, [])
             | Cancelled reason \<Rightarrow> (''Research cancelled: '' @ reason, [])
             | _ \<Rightarrow> ([], []))
      in (\<lparr>rr_query = getQuery (stateManager w), rr_answer = answer, rr_references = refs,
           rr_metrics = getMetrics (stateManager w), rr_duration = elapsed,
           rr_steps = stepCount ms\<rparr>, ms1))"

text \<open>
  \<open>research\<close> on an agent whose machine is \<open>ms\<close> and whose world is \<open>w\<close>: the result
  returned or the error thrown to the caller, and the machine and the world afterwards.
  \<open>initialize\<close> is called inside the \<open>try\<close>, so what it throws is rethrown like the rest.
\<close>

definition research ::
  "AgentConfig \<Rightarrow> ResearchAgentOptions \<Rightarrow> Timing \<Rightarrow> string
     \<Rightarrow> AgentState StateMachine \<Rightarrow> AgentWorld
     \<Rightarrow> (Thrown + ResearchResult) \<times> AgentState StateMachine \<times> AgentWorld" where
  "research cfg P T q ms w =
     (let (initialized, w0) = manage (initialize q (clock T (clockReads ms))) w;
          ms0 = tick ms
      in (case initialized of
            Inl e \<Rightarrow> (Inl (handleError e), ms0, w0)
          | Inr _ \<Rightarrow>
              (let (r, ms1, w1) = run (createStateMachine cfg P) T ms0 w0
               in (case r of
                     Inl e \<Rightarrow> (Inl (handleError e), ms1, w1)
                   | Inr final \<Rightarrow>
                       (case final of
                          State finalState \<Rightarrow>
                            if \<not> isTerminal finalState
                            then (Inl (handleError
                                         (Error ''Research terminated in non-terminal state'')),
                                  ms1, w1)
                            else (let (result, ms2) = buildResult T finalState ms1 w1
                                  in (Inr result, ms2, w1))
                        | TimerCallback \<Rightarrow>
                            (Inl (handleError
                                    (Error ''Research terminated in non-terminal state'')),
                             ms1, w1))))))"

definition new_AgentWorld :: "StateManager \<Rightarrow> AgentWorld" where
  "new_AgentWorld sm = \<lparr>stateManager = sm, llmCalls = 0, searchCalls = 0, readCalls = 0\<rparr>"



section \<open>Concrete inputs\<close>

text \<open>
  Every input below is one that a caller can build through the exported interface.
  State managers come from the constructor: one with a budget of 100 tokens and a
  knowledge cap of two items; the same with a budget of 0 tokens, which
  \<open>isBudgetExhausted\<close> reports as exhausted from the start; and the first one after
  the call \<open>trackTokenUsage(0)\<close>, which has thrown and left the state frozen.
\<close>

definition example_options :: StateManagerOptions where
  "example_options = \<lparr>tokenBudget = 100, maxKnowledge = Some 2, maxUrls = Some 50\<rparr>"

definition fresh_manager :: StateManager where
  "fresh_manager = new_StateManager example_options 0"



text \<open>
  A configuration with at most 10 steps, and the same with a maximal duration of one
  millisecond. Two replies of an LLM, and a \<open>JSON.parse\<close> that reads them. Services
  whose LLM returns bytes without any JSON on every call, whose search finds nothing
  and whose reader returns a page; the same with an LLM that returns an answer action
  on every call; with an LLM that fails with status 401 on every call; with a search
  provider that fails with status 503; and with a reader that fails with an \<open>Error\<close>.
\<close>

definition example_config :: AgentConfig where
  "example_config =
     \<lparr>cfg_tokenBudget = 100, cfg_maxSteps = 10, cfg_maxDuration = 300000,
      maxBadAttempts = 3, cfg_timeout = 30000, enableTelemetry = False\<rparr>"

definition hasty_config :: AgentConfig where
  "hasty_config = example_config\<lparr>cfg_maxDuration := 1\<rparr>"

definition answer_json :: string where
  \<open>answer_json = ''{"type":"answer","answer":"42","references":[]}''\<close>

definition visit_json :: string where
  \<open>visit_json = ''{"type":"visit","urls":[{"url":"https://a.example","reason":"r"}]}''\<close>

definition example_JSON_parse :: "string \<Rightarrow> AgentAction option" where
  "example_JSON_parse j =
     (if j = answer_json then Some (AnswerAction ''42'' [])
      else if j = visit_json then Some (VisitAction [''https://a.example''])
      else None)"

definition garbage_services :: ResearchAgentOptions where
  "garbage_services =
     \<lparr>llmProvider =
        \<lparr>llm_name = ''openai'', llm_model = ''gpt'', generate = (\<lambda>n p. Generated ''xyz'')\<rparr>,
      searchProvider = (\<lambda>n q. Found []),
      contentReader = (\<lambda>n u. ReadOk ''page''),
      JSON_parse = example_JSON_parse\<rparr>"





text \<open>
  A clock that advances by one millisecond at each reading, without any cancellation
  and with handlers that settle in time; the same with a call of \<open>cancel("stop")\<close>
  while the first transition is awaited; the same with a first transition that
  outlasts the timeout; and a clock that advances by five seconds at each reading.
\<close>

definition steady :: Timing where
  "steady = \<lparr>clock = (\<lambda>n. int n), cancelRequests = (\<lambda>k. None), outlasts = (\<lambda>k. False)\<rparr>"

definition cancelling :: Timing where
  "cancelling = steady\<lparr>cancelRequests := (\<lambda>k. if k = 0 then Some ''stop'' else None)\<rparr>"

definition stalling :: Timing where
  "stalling = steady\<lparr>outlasts := (\<lambda>k. k = 0)\<rparr>"

definition jumping :: Timing where
  "jumping = steady\<lparr>clock := (\<lambda>n. 5000 * int n)\<rparr>"

text \<open>
  A machine made with the exported \<open>createStateMachine\<close>, over states that are their
  own status: \<open>idle\<close> goes to \<open>working\<close> and \<open>working\<close> to \<open>completed\<close>; \<open>spinning\<close> goes to
  itself; the handler of \<open>broken\<close> throws; \<open>guarded\<close> has a handler and a validator that
  refuses it; \<open>lost\<close> has no handler. At most three steps, one second, and 50
  milliseconds for a transition. The handlers act on nothing.
\<close>

definition toy_options :: StateMachineOptions where
  "toy_options = \<lparr>maxSteps = 3, maxDuration = 1000, timeout = 50\<rparr>"

definition toy_machine :: "(string, unit) StateMachineSetup" where
  "toy_machine =
     createStateMachine_generic toy_options
       [(''idle'', \<lambda>s now w. (Inr ''working'', w)),
        (''working'', \<lambda>s now w. (Inr ''completed'', w)),
        (''spinning'', \<lambda>s now w. (Inr ''spinning'', w)),
        (''broken'', \<lambda>s now w. (Inl (Error ''boom''), w)),
        (''guarded'', \<lambda>s now w. (Inr ''completed'', w))]
       [(''guarded'', \<lambda>s. False)]
       (\<lambda>s. s)"

section \<open>Properties of the error hierarchy\<close>

lemma LLMError_retryable_iff:
  "LLMError_retryable context \<longleftrightarrow>
     statusCode context = None \<or> statusCode context = Some 0 \<or> statusCode context = Some 429
     \<or> (\<exists>c. statusCode context = Some c \<and> c \<ge> 500)"
  by (auto simp: LLMError_retryable_def js_not_number_def split: option.splits)

text \<open>
  C9: an \<open>LLMError\<close> is retryable exactly when its context carries no HTTP status code,
  or status \<open>429\<close>, or a status of \<open>500\<close> or more; it is not retryable for any 4xx
  status other than \<open>429\<close>. An error carries no HTTP status code when the \<open>statusCode\<close>
  property is absent, and also when it is \<open>0\<close>, the value that HTTP clients report
  when no response arrived: \<open>!context.statusCode\<close> is true in both cases.
\<close>

theorem C9_LLMError_retryable:
  "(LLMError_retryable context \<longleftrightarrow>
      statusCode context = None \<or> statusCode context = Some 0 \<or> statusCode context = Some 429
      \<or> (\<exists>c. statusCode context = Some c \<and> c \<ge> 500))
   \<and> (\<forall>c. statusCode context = Some c \<and> 400 \<le> c \<and> c < 500 \<and> c \<noteq> 429
          \<longrightarrow> \<not> LLMError_retryable context)"
  by (auto simp: LLMError_retryable_iff)

text \<open>
  C9 at concrete contexts: status \<open>404\<close> is not retryable; status \<open>429\<close>, status \<open>503\<close>,
  a missing status and the status \<open>0\<close> of a request without response are.
\<close>

theorem C9_LLMError_retryable_witness:
  "\<not> LLMError_retryable \<lparr>provider = ''openai'', statusCode = Some 404, model = None\<rparr>
   \<and> LLMError_retryable \<lparr>provider = ''openai'', statusCode = Some 429, model = None\<rparr>
   \<and> LLMError_retryable \<lparr>provider = ''openai'', statusCode = Some 503, model = None\<rparr>
   \<and> LLMError_retryable \<lparr>provider = ''openai'', statusCode = None, model = None\<rparr>
   \<and> LLMError_retryable \<lparr>provider = ''openai'', statusCode = Some 0, model = None\<rparr>"
  using C9_LLMError_retryable [of "\<lparr>provider = ''openai'', statusCode = Some 404, model = None\<rparr>"]
    C9_LLMError_retryable [of "\<lparr>provider = ''openai'', statusCode = Some 429, model = None\<rparr>"]
    C9_LLMError_retryable [of "\<lparr>provider = ''openai'', statusCode = Some 503, model = None\<rparr>"]
    C9_LLMError_retryable [of "\<lparr>provider = ''openai'', statusCode = None, model = None\<rparr>"]
    C9_LLMError_retryable [of "\<lparr>provider = ''openai'', statusCode = Some 0, model = None\<rparr>"]
  by simp

section \<open>Properties of the content helpers\<close>

lemma lastIndexOf_bounds: "- 1 \<le> lastIndexOf s c \<and> lastIndexOf s c < int (length s)"
proof (cases "filter (\<lambda>i. s ! i = c) (rev [0..<length s])")
  case Nil
  then show ?thesis by (simp add: lastIndexOf_def)
next
  case (Cons i js)
  then have "i \<in> set (filter (\<lambda>i. s ! i = c) (rev [0..<length s]))" by simp
  then have "i < length s" by simp
  with Cons show ?thesis by (simp add: lastIndexOf_def)
qed

lemma truncateContent_short:
  "int (length str) \<le> maxLength \<Longrightarrow> truncateContent str maxLength = str"
  by (simp add: truncateContent_def)

lemma truncateContent_length_le:
  assumes "0 < maxLength"
  shows "int (length (truncateContent str maxLength)) \<le> maxLength + 2"
proof (cases "int (length str) \<le> maxLength")
  case True
  then show ?thesis by (simp add: truncateContent_def)
next
  case False
  define truncated where "truncated = js_slice0 str maxLength"
  have lm: "int (length truncated) = maxLength"
    using assms False by (simp add: truncated_def js_slice0_def)
  have b: "- 1 \<le> lastIndexOf truncated CHR '' '' \<and> lastIndexOf truncated CHR '' '' < int (length truncated)"
    by (rule lastIndexOf_bounds)
  have "int (length (js_slice0 truncated (lastIndexOf truncated CHR '' ''))) \<le> int (length truncated) - 1"
    using b lm assms by (auto simp: js_slice0_def)
  then have "int (length (truncateContent str maxLength)) \<le> int (length truncated) - 1 + 3"
    using False by (simp add: truncateContent_def Let_def truncated_def)
  with lm show ?thesis by simp
qed

text \<open>
  C10 at a failing input: \<open>truncateContent("hello world foo", 12)\<close>. The content is longer
  than the bound, the cut falls on the space at index 11, and the ellipsis is appended
  after the cut: the result has 14 characters, two more than the bound.
\<close>

theorem C10_truncateContent_exceeds:
  "truncateContent ''hello world foo'' 12 = ''hello world...''
   \<and> int (length (truncateContent ''hello world foo'' 12)) > 12"
  by code_simp

section \<open>Properties of the state manager\<close>

lemma update_throws:
  "fst (update f now sm)
     = (if frozen sm \<or> \<not> snd (f (state sm))
        then Inl (TypeError_read_only ''lastUpdate'') else Inr ())"
  by (simp add: update_def produce_def Let_def split: prod.splits)

lemma update_state:
  "state (snd (update f now sm))
     = (if frozen sm \<or> \<not> snd (f (state sm)) then state sm
        else (state sm)\<lparr>lastUpdate := now\<rparr>)"
  by (simp add: update_def produce_def Let_def split: prod.splits)

lemma update_frozen:
  "frozen (snd (update f now sm)) \<longleftrightarrow> frozen sm \<or> \<not> snd (f (state sm))"
  by (simp add: update_def produce_def Let_def split: prod.splits)

lemma update_options: "options (snd (update f now sm)) = options sm"
  by (simp add: update_def produce_def Let_def split: prod.splits)

lemma update_state_isl:
  "state (snd (update f now sm))
     = (if isl (fst (update f now sm)) then state sm else (state sm)\<lparr>lastUpdate := now\<rparr>)"
  by (simp add: update_throws update_state)

lemmas mutator_defs =
  initialize_def addSearchResults_def markUrlVisited_def addContent_def addKnowledge_def
  trackTokenUsage_def incrementErrorCount_def incrementStep_def

lemma call_state:
  "state (snd (call c now sm))
     = (if isl (fst (call c now sm)) then state sm else (state sm)\<lparr>lastUpdate := now\<rparr>)"
  by (cases c) (simp_all only: call.simps mutator_defs update_state_isl)

lemma call_options: "options (snd (call c now sm)) = options sm"
  by (cases c) (simp_all add: update_options mutator_defs)

lemma call_frozen_stays:
  "frozen sm \<Longrightarrow>
   fst (call c now sm) = Inl (TypeError_read_only ''lastUpdate'')
   \<and> frozen (snd (call c now sm)) \<and> state (snd (call c now sm)) = state sm"
  by (cases c) (simp_all add: mutator_defs update_throws update_frozen update_state)

lemma calls_fields:
  "query (state (calls cs sm)) = query (state sm)
   \<and> budget (state (calls cs sm)) = budget (state sm)
   \<and> step (state (calls cs sm)) = step (state sm)
   \<and> knowledge (state (calls cs sm)) = knowledge (state sm)
   \<and> urls (state (calls cs sm)) = urls (state sm)
   \<and> content (state (calls cs sm)) = content (state sm)
   \<and> metrics (state (calls cs sm)) = metrics (state sm)"
  by (induction cs arbitrary: sm) (auto simp: call_state)


lemma markUrlVisited_unrecorded_throws:
  "map_of (urls (state sm)) u = None \<Longrightarrow>
   fst (markUrlVisited u now sm)
     = Inl (TypeError_read_only ''lastUpdate'')
   \<and> frozen (snd (markUrlVisited u now sm))
   \<and> state (snd (markUrlVisited u now sm)) = state sm"
  by (simp add: markUrlVisited_def update_throws update_frozen update_state
        markUrlVisited_updater_def)

lemma initialize_same_throws:
  "query (state sm) = q \<Longrightarrow> step (state sm) = 0 \<Longrightarrow>
   fst (initialize q now sm)
     = Inl (TypeError_read_only ''lastUpdate'')
   \<and> frozen (snd (initialize q now sm))
   \<and> state (snd (initialize q now sm)) = state sm"
  by (simp add: initialize_def update_throws update_frozen update_state
        initialize_updater_def)

text \<open>
  What the recipes themselves would do, if their result were stored: the recipe of
  \<open>initialize\<close> sets the step back to 0, and the recipe of \<open>addContent\<close> replaces the
  page recorded for a URL.
\<close>

lemma initialize_updater_resets_step:
  "step (fst (initialize_updater q d)) = 0"
  by (simp add: initialize_updater_def)

lemma addContent_updater_overwrites:
  "map_of (content (fst (addContent_updater u c now d))) u
     = Some \<lparr>wc_url = u, wc_content = c, wc_timestamp = now\<rparr>"
  by (simp add: addContent_updater_def update_conv')

text \<open>
  C8: a call of any of the eight mutators leaves every field of the state other than
  \<open>lastUpdate\<close> as it was, and the options too, whether the call returns or throws:
  \<open>update\<close> never stores what \<open>produce\<close> returns. \<open>lastUpdate\<close> becomes the time of the call
  when the call returns and stays as it was when the call throws. In particular
  \<open>getUsedTokens\<close> gives the same value before and after \<open>trackTokenUsage(n)\<close>, for every
  \<open>n\<close>.
\<close>

theorem C8_mutators_change_lastUpdate_only:
  "query (state (snd (call c now sm))) = query (state sm)
   \<and> step (state (snd (call c now sm))) = step (state sm)
   \<and> startTime (state (snd (call c now sm))) = startTime (state sm)
   \<and> budget (state (snd (call c now sm))) = budget (state sm)
   \<and> knowledge (state (snd (call c now sm))) = knowledge (state sm)
   \<and> urls (state (snd (call c now sm))) = urls (state sm)
   \<and> content (state (snd (call c now sm))) = content (state sm)
   \<and> metrics (state (snd (call c now sm))) = metrics (state sm)
   \<and> lastUpdate (state (snd (call c now sm)))
       = (if isl (fst (call c now sm)) then lastUpdate (state sm) else now)
   \<and> options (snd (call c now sm)) = options sm
   \<and> getUsedTokens (snd (trackTokenUsage n now sm)) = getUsedTokens sm"
  using call_state [of "TrackTokenUsage n" now sm]
  by (simp add: call_state call_options getUsedTokens_def)

text \<open>
  C8 at concrete calls on a manager as the constructor leaves it: tracking 7 tokens at
  time 9 returns, leaves 0 tokens used and sets \<open>lastUpdate\<close> to 9; tracking 0 tokens
  throws, and leaves the 0 tokens and the old \<open>lastUpdate\<close>.
\<close>

theorem C8_mutators_change_lastUpdate_only_witness:
  "getUsedTokens (snd (trackTokenUsage 7 9 fresh_manager)) = 0
   \<and> budget (state (snd (call (TrackTokenUsage 7) 9 fresh_manager)))
       = \<lparr>b_total = 100, b_used = 0\<rparr>
   \<and> lastUpdate (state (snd (call (TrackTokenUsage 7) 9 fresh_manager))) = 9
   \<and> fst (call (TrackTokenUsage 0) 9 fresh_manager)
       = Inl (TypeError_read_only ''lastUpdate'')
   \<and> budget (state (snd (call (TrackTokenUsage 0) 9 fresh_manager)))
       = \<lparr>b_total = 100, b_used = 0\<rparr>
   \<and> lastUpdate (state (snd (call (TrackTokenUsage 0) 9 fresh_manager))) = 0"
proof -
  have a: "fst (call (TrackTokenUsage 7) 9 fresh_manager) = Inr ()"
    "fst (call (TrackTokenUsage 0) 9 fresh_manager)
       = Inl (TypeError_read_only ''lastUpdate'')"
    by (simp_all add: fresh_manager_def new_StateManager_def trackTokenUsage_def update_throws
          trackTokenUsage_updater_def)
  have b: "budget (state fresh_manager) = \<lparr>b_total = 100, b_used = 0\<rparr>"
    "lastUpdate (state fresh_manager) = 0"
    by (simp_all add: fresh_manager_def new_StateManager_def example_options_def)
  from C8_mutators_change_lastUpdate_only [of "TrackTokenUsage 7" 9 fresh_manager 7]
    C8_mutators_change_lastUpdate_only [of "TrackTokenUsage 0" 9 fresh_manager 0] a b
  show ?thesis by (simp add: getUsedTokens_def)
qed



lemma getContext_knowledge_empty:
  "knowledge (state sm) = [] \<Longrightarrow> ctx_knowledge (getContext sm) = []"
  by (simp add: getContext_def js_slice_from_def)

text \<open>
  C7 fails in the program: \<open>addKnowledge\<close> hands its recipe to \<open>update\<close>, which drops the
  state that \<open>produce\<close> returns, so the store after the call is the store before it,
  for every manager and every item. On a manager as the constructor leaves it, after
  three calls of \<open>addKnowledge\<close> the store is empty, and so is the knowledge that
  \<open>getContext\<close> hands to the prompts, the prompt of the final answer included.
\<close>

theorem C7_knowledge_not_retained:
  "knowledge (state (snd (addKnowledge q a t now sm))) = knowledge (state sm)
   \<and> fst (addKnowledge ''q1'' ''a1'' qa 1 fresh_manager) = Inr ()
   \<and> knowledge (state (snd (addKnowledge ''q1'' ''a1'' qa 1 fresh_manager))) = []
   \<and> knowledge (state (calls
        [(AddKnowledge ''q1'' ''a1'' qa, 1), (AddKnowledge ''q2'' ''a2'' search, 2),
         (AddKnowledge ''q3'' ''a3'' visit, 3)] fresh_manager)) = []
   \<and> ctx_knowledge (getContext (calls
        [(AddKnowledge ''q1'' ''a1'' qa, 1), (AddKnowledge ''q2'' ''a2'' search, 2),
         (AddKnowledge ''q3'' ''a3'' visit, 3)] fresh_manager)) = []"
proof -
  have 1: "knowledge (state (snd (addKnowledge q a t now sm))) = knowledge (state sm)"
    using call_state [of "AddKnowledge q a t" now sm] by simp
  have 2: "fst (addKnowledge ''q1'' ''a1'' qa 1 fresh_manager) = Inr ()"
    by (simp add: addKnowledge_def update_throws addKnowledge_updater_def Let_def
          fresh_manager_def new_StateManager_def)
  have 3: "knowledge (state fresh_manager) = []"
    by (simp add: fresh_manager_def new_StateManager_def)
  have 4: "knowledge (state (snd (addKnowledge ''q1'' ''a1'' qa 1 fresh_manager))) = []"
    using call_state [of "AddKnowledge ''q1'' ''a1'' qa" 1 fresh_manager] 3 by simp
  let ?cs = "[(AddKnowledge ''q1'' ''a1'' qa, 1), (AddKnowledge ''q2'' ''a2'' search, 2),
         (AddKnowledge ''q3'' ''a3'' visit, 3)]"
  have 5: "knowledge (state (calls ?cs fresh_manager)) = []"
    using calls_fields [of ?cs fresh_manager] 3 by simp
  have 6: "ctx_knowledge (getContext (calls ?cs fresh_manager)) = []"
    using 5 by (rule getContext_knowledge_empty)
  from 1 2 4 5 6 show ?thesis by blast
qed

section \<open>Properties of the state machine\<close>

lemma run_iteration_throw_steps:
  assumes "run_iteration M T ms w = (Inl e, ms', w')"
  shows "stepCount ms' = stepCount ms"
  using assms
  by (auto simp: run_iteration_def checkTerminationConditions_def recordTransition_def tick_def
        receiveCancel_def cancel_def executeWithTimeout_def Let_def
      split: if_splits option.splits sum.splits prod.splits Current.splits)

lemma run_iteration_cancelled:
  "isCancelled ms \<Longrightarrow> run_iteration M T ms w = (Inl (Error_cancelled (cancelReason ms)), ms, w)"
  by (simp add: run_iteration_def)

lemma run_iteration_max_steps:
  "\<not> isCancelled ms \<Longrightarrow> maxSteps (sm_options M) \<le> stepCount ms \<Longrightarrow>
   run_iteration M T ms w
     = (Inl (Error_max_steps (maxSteps (sm_options M)) (stepCount ms)), ms, w)"
  by (simp add: run_iteration_def checkTerminationConditions_def)

lemma run_iteration_max_duration:
  "\<not> isCancelled ms \<Longrightarrow> stepCount ms < maxSteps (sm_options M) \<Longrightarrow>
   maxDuration (sm_options M) < clock T (clockReads ms) - machine_startTime ms \<Longrightarrow>
   run_iteration M T ms w
     = (Inl (Error_max_duration (maxDuration (sm_options M))
               (clock T (clockReads ms) - machine_startTime ms)), tick ms, w)"
  by (simp add: run_iteration_def checkTerminationConditions_def Let_def)

lemma run_iteration_timer_callback:
  "\<not> isCancelled ms \<Longrightarrow> stepCount ms < maxSteps (sm_options M) \<Longrightarrow>
   clock T (clockReads ms) - machine_startTime ms \<le> maxDuration (sm_options M) \<Longrightarrow>
   currentState ms = TimerCallback \<Longrightarrow>
   run_iteration M T ms w = (Inl (Error_no_handler ''undefined''), tick ms, w)"
  by (simp add: run_iteration_def checkTerminationConditions_def tick_def Let_def)

lemma run_iteration_no_handler:
  "\<not> isCancelled ms \<Longrightarrow> stepCount ms < maxSteps (sm_options M) \<Longrightarrow>
   clock T (clockReads ms) - machine_startTime ms \<le> maxDuration (sm_options M) \<Longrightarrow>
   currentState ms = State s \<Longrightarrow> transitionHandlers M (statusOf M s) = None \<Longrightarrow>
   run_iteration M T ms w = (Inl (Error_no_handler (statusOf M s)), tick ms, w)"
  by (simp add: run_iteration_def checkTerminationConditions_def tick_def Let_def)

lemma run_iteration_invalid_state:
  "\<not> isCancelled ms \<Longrightarrow> stepCount ms < maxSteps (sm_options M) \<Longrightarrow>
   clock T (clockReads ms) - machine_startTime ms \<le> maxDuration (sm_options M) \<Longrightarrow>
   currentState ms = State s \<Longrightarrow> transitionHandlers M (statusOf M s) = Some h \<Longrightarrow>
   validators M (statusOf M s) = Some v \<Longrightarrow> \<not> v s \<Longrightarrow>
   run_iteration M T ms w = (Inl (Error_invalid_state (statusOf M s)), tick ms, w)"
  by (simp add: run_iteration_def checkTerminationConditions_def tick_def Let_def)

lemma run_iteration_handler_throws:
  assumes "\<not> isCancelled ms" "stepCount ms < maxSteps (sm_options M)"
    and "clock T (clockReads ms) - machine_startTime ms \<le> maxDuration (sm_options M)"
    and "currentState ms = State s"
    and "transitionHandlers M (statusOf M s) = Some h"
    and "\<forall>v. validators M (statusOf M s) = Some v \<longrightarrow> v s"
    and "\<not> outlasts T (stepCount ms)"
    and "h s (clock T (Suc (clockReads ms))) w = (Inl e, w')"
  shows "fst (run_iteration M T ms w) = Inl e"
  using assms
  by (auto simp: run_iteration_def checkTerminationConditions_def tick_def Let_def
        executeWithTimeout_def split: option.splits)

lemma run_iteration_outlasts:
  assumes "\<not> isCancelled ms" "stepCount ms < maxSteps (sm_options M)"
    and "clock T (clockReads ms) - machine_startTime ms \<le> maxDuration (sm_options M)"
    and "currentState ms = State s"
    and "transitionHandlers M (statusOf M s) = Some h"
    and "\<forall>v. validators M (statusOf M s) = Some v \<longrightarrow> v s"
    and "outlasts T (stepCount ms)"
  shows "\<exists>ms' w'. run_iteration M T ms w = (Inr (), ms', w') \<and> currentState ms' = TimerCallback"
  using assms
  by (auto simp: run_iteration_def checkTerminationConditions_def tick_def Let_def
        executeWithTimeout_def split: option.splits prod.splits)

lemma run_iteration_cancel_received:
  assumes "run_iteration M T ms w = (Inr u, ms', w')"
    and "cancelRequests T (stepCount ms) = Some reason"
  shows "isCancelled ms' \<and> cancelReason ms' = Some reason"
  using assms
  by (auto simp: run_iteration_def checkTerminationConditions_def recordTransition_def tick_def
        receiveCancel_def cancel_def executeWithTimeout_def Let_def
      split: if_splits option.splits sum.splits prod.splits Current.splits)

lemma run_loop_terminal:
  "machine_isTerminal M (currentState ms) \<Longrightarrow> run_loop M T ms w = (Inr (currentState ms), ms, w)"
  by (simp add: run_loop.simps)

lemma run_loop_throw:
  "\<not> machine_isTerminal M (currentState ms) \<Longrightarrow> run_iteration M T ms w = (Inl e, ms', w')
   \<Longrightarrow> run_loop M T ms w = (Inl e, ms', w')"
  by (simp add: run_loop.simps)

lemma run_loop_throw_fst:
  "\<not> machine_isTerminal M (currentState ms) \<Longrightarrow> fst (run_iteration M T ms w) = Inl e
   \<Longrightarrow> fst (run_loop M T ms w) = Inl e"
  by (cases "run_iteration M T ms w") (simp add: run_loop.simps)

lemma run_loop_next:
  "\<not> machine_isTerminal M (currentState ms) \<Longrightarrow> run_iteration M T ms w = (Inr u, ms', w')
   \<Longrightarrow> run_loop M T ms w = run_loop M T ms' w'"
  by (simp add: run_loop.simps)

lemma timer_callback_not_terminal:
  "\<not> machine_isTerminal M TimerCallback"
  by (simp add: machine_isTerminal_def statusOfCurrent_def)

text \<open>
  A run whose current state is the timer's callback throws at its next iteration.
\<close>

lemma run_loop_timer_callback:
  assumes "currentState ms = TimerCallback"
  shows "fst (run_loop M T ms w)
     = Inl (if isCancelled ms then Error_cancelled (cancelReason ms)
            else if maxSteps (sm_options M) \<le> stepCount ms
            then Error_max_steps (maxSteps (sm_options M)) (stepCount ms)
            else if maxDuration (sm_options M) < clock T (clockReads ms) - machine_startTime ms
            then Error_max_duration (maxDuration (sm_options M))
                   (clock T (clockReads ms) - machine_startTime ms)
            else Error_no_handler ''undefined'')"
proof -
  have nt: "\<not> machine_isTerminal M (currentState ms)"
    using assms by (simp add: timer_callback_not_terminal)
  show ?thesis
    using assms
    by (intro run_loop_throw_fst [OF nt])
       (simp add: run_iteration_cancelled run_iteration_max_steps run_iteration_max_duration
          run_iteration_timer_callback)
qed

lemma run_loop_outlasts:
  assumes "\<not> machine_isTerminal M (currentState ms)"
    and "\<not> isCancelled ms" "stepCount ms < maxSteps (sm_options M)"
    and "clock T (clockReads ms) - machine_startTime ms \<le> maxDuration (sm_options M)"
    and "currentState ms = State s"
    and "transitionHandlers M (statusOf M s) = Some h"
    and "\<forall>v. validators M (statusOf M s) = Some v \<longrightarrow> v s"
    and "outlasts T (stepCount ms)"
  shows "\<exists>e. fst (run_loop M T ms w) = Inl e
            \<and> (e = Error_no_handler ''undefined'' \<or> (\<exists>r. e = Error_cancelled r)
                \<or> (\<exists>a b. e = Error_max_steps a b) \<or> (\<exists>a b. e = Error_max_duration a b))"
proof -
  from run_iteration_outlasts [OF assms(2-8)] obtain ms' w'
    where it: "run_iteration M T ms w = (Inr (), ms', w')" and tc: "currentState ms' = TimerCallback"
    by blast
  have "run_loop M T ms w = run_loop M T ms' w'"
    using assms(1) it by (rule run_loop_next)
  then show ?thesis
    using run_loop_timer_callback [OF tc, of M T w'] by auto
qed

lemma run_loop_bounds:
  "run_loop M T ms w = (r, ms', w') \<Longrightarrow>
     (\<forall>c. r = Inr c \<longrightarrow> machine_isTerminal M c \<and> c = currentState ms')
     \<and> stepCount ms \<le> stepCount ms'
     \<and> stepCount ms' \<le> max (stepCount ms) (maxSteps (sm_options M))"
proof (induction M T ms w arbitrary: r ms' w' rule: run_loop.induct)
  case (1 M T ms w)
  show ?case
  proof (cases "machine_isTerminal M (currentState ms)")
    case True
    with "1.prems" show ?thesis by (auto simp: run_loop_terminal)
  next
    case False
    obtain x ms1 w1 where it: "run_iteration M T ms w = (x, ms1, w1)"
      by (cases "run_iteration M T ms w") auto
    show ?thesis
    proof (cases x)
      case (Inl e)
      with it False "1.prems" run_iteration_throw_steps [of M T ms w e ms1 w1]
      show ?thesis by (auto simp: run_loop_throw)
    next
      case (Inr u)
      with it False "1.prems" have rl: "run_loop M T ms1 w1 = (r, ms', w')"
        by (simp add: run_loop_next)
      from it Inr have "run_iteration M T ms w = (Inr u, ms1, w1)" by simp
      then have st: "stepCount ms < maxSteps (sm_options M) \<and> stepCount ms1 = stepCount ms + 1"
        by (rule run_iteration_steps)
      from "1.IH" [OF False it [symmetric] Inr refl rl] st
      show ?thesis by auto
    qed
  qed
qed

lemma run_bounds:
  "(\<forall>c. fst (run M T ms w) = Inr c \<longrightarrow> machine_isTerminal M c)
   \<and> stepCount ms \<le> stepCount (fst (snd (run M T ms w)))
   \<and> stepCount (fst (snd (run M T ms w))) \<le> max (stepCount ms) (maxSteps (sm_options M))"
proof -
  let ?ms = "(tick ms)\<lparr>machine_startTime := clock T (clockReads ms)\<rparr>"
  obtain r ms' w' where rl: "run_loop M T ?ms w = (r, ms', w')"
    by (cases "run_loop M T ?ms w") auto
  have "stepCount ?ms = stepCount ms" by (simp add: tick_def)
  with run_loop_bounds [OF rl] rl show ?thesis
    by (simp add: run_def)
qed

lemma research_result:
  "fst (research cfg P T q ms w)
     = (case fst (manage (initialize q (clock T (clockReads ms))) w) of
          Inl e \<Rightarrow> Inl e
        | Inr _ \<Rightarrow>
            (case run (createStateMachine cfg P) T (tick ms)
                    (snd (manage (initialize q (clock T (clockReads ms))) w)) of
               (Inl e, ms1, w1) \<Rightarrow> Inl e
             | (Inr TimerCallback, ms1, w1) \<Rightarrow>
                 Inl (Error ''Research terminated in non-terminal state'')
             | (Inr (State s), ms1, w1) \<Rightarrow>
                 if isTerminal s then Inr (fst (buildResult T s ms1 w1))
                 else Inl (Error ''Research terminated in non-terminal state'')))"
proof -
  obtain i w0 where m: "manage (initialize q (clock T (clockReads ms))) w = (i, w0)"
    by (cases "manage (initialize q (clock T (clockReads ms))) w") auto
  obtain r ms1 w1 where rn: "run (createStateMachine cfg P) T (tick ms) w0 = (r, ms1, w1)"
    by (cases "run (createStateMachine cfg P) T (tick ms) w0") auto
  show ?thesis
  proof (cases i)
    case (Inl e)
    with m show ?thesis by (simp add: research_def handleError_def)
  next
    case (Inr u)
    show ?thesis
    proof (cases r)
      case (Inl e)
      with m rn Inr show ?thesis by (simp add: research_def handleError_def)
    next
      case r: (Inr c)
      with m rn Inr show ?thesis
        by (cases c) (simp_all add: research_def handleError_def split: prod.splits)
    qed
  qed
qed

lemma research_initialize_throws:
  assumes "fst (manage (initialize q (clock T (clockReads ms))) w) = Inl e"
  shows "fst (research cfg P T q ms w) = Inl e"
  using assms by (simp add: research_result)

lemma research_rethrows_fst:
  assumes "fst (manage (initialize q (clock T (clockReads ms))) w) = Inr ()"
    and "fst (run (createStateMachine cfg P) T (tick ms)
                (snd (manage (initialize q (clock T (clockReads ms))) w))) = Inl e"
  shows "fst (research cfg P T q ms w) = Inl e"
  using assms by (auto simp: research_result split: prod.splits)

text \<open>
  C1 (as the code has it), for every valid configuration, that is for integer limits:
  for every machine (whatever its handlers return), every clock, every cancellation,
  every timeout and every starting state, \<open>run\<close> ends. It ends with a state only if that
  state is completed, failed or cancelled, and otherwise with a thrown error; the step
  count never exceeds the larger of its starting value and \<open>maxSteps\<close>, so that a new
  machine makes at most \<open>maxSteps\<close> transitions. From a state that is not terminal the
  run throws, and returns no state, in each of these cases, tested in this order at
  the head of an iteration: the machine is cancelled; the step count has reached
  \<open>maxSteps\<close>; the elapsed time is above \<open>maxDuration\<close>; the current state is the timer's
  callback, left there by a transition that outlasted the timeout; the status has no
  handler; the validator of the status refuses the state. It also throws when the
  handler throws before the timer fires, and, one iteration later, when the handler
  outlasts the timeout. \<open>research\<close> throws what \<open>initialize\<close> or \<open>run\<close> throws, and returns
  a result only when \<open>run\<close> returned a terminal state.
\<close>

theorem C1_run_terminates:
  "(fst (run M T ms w) = Inr c \<longrightarrow> machine_isTerminal M c)
   \<and> stepCount ms \<le> stepCount (fst (snd (run M T ms w)))
   \<and> stepCount (fst (snd (run M T ms w))) \<le> max (stepCount ms) (maxSteps (sm_options M))
   \<and> (\<not> machine_isTerminal M (currentState ms) \<and> isCancelled ms
      \<longrightarrow> run_loop M T ms w = (Inl (Error_cancelled (cancelReason ms)), ms, w))
   \<and> (\<not> machine_isTerminal M (currentState ms) \<and> \<not> isCancelled ms
        \<and> maxSteps (sm_options M) \<le> stepCount ms
      \<longrightarrow> run_loop M T ms w
            = (Inl (Error_max_steps (maxSteps (sm_options M)) (stepCount ms)), ms, w))
   \<and> (\<not> machine_isTerminal M (currentState ms) \<and> \<not> isCancelled ms
        \<and> stepCount ms < maxSteps (sm_options M)
        \<and> maxDuration (sm_options M) < clock T (clockReads ms) - machine_startTime ms
      \<longrightarrow> run_loop M T ms w
            = (Inl (Error_max_duration (maxDuration (sm_options M))
                      (clock T (clockReads ms) - machine_startTime ms)), tick ms, w))
   \<and> (\<not> isCancelled ms \<and> stepCount ms < maxSteps (sm_options M)
        \<and> clock T (clockReads ms) - machine_startTime ms \<le> maxDuration (sm_options M)
      \<longrightarrow>
        (currentState ms = TimerCallback
           \<longrightarrow> run_loop M T ms w = (Inl (Error_no_handler ''undefined''), tick ms, w))
        \<and> (currentState ms = State s \<and> \<not> machine_isTerminal M (State s)
                \<and> transitionHandlers M (statusOf M s) = None
             \<longrightarrow> run_loop M T ms w = (Inl (Error_no_handler (statusOf M s)), tick ms, w))
        \<and> (currentState ms = State s \<and> \<not> machine_isTerminal M (State s)
                \<and> transitionHandlers M (statusOf M s) = Some h
                \<and> validators M (statusOf M s) = Some v \<and> \<not> v s
             \<longrightarrow> run_loop M T ms w = (Inl (Error_invalid_state (statusOf M s)), tick ms, w))
        \<and> (currentState ms = State s \<and> \<not> machine_isTerminal M (State s)
                \<and> transitionHandlers M (statusOf M s) = Some h
                \<and> (\<forall>v. validators M (statusOf M s) = Some v \<longrightarrow> v s)
                \<and> \<not> outlasts T (stepCount ms)
                \<and> h s (clock T (Suc (clockReads ms))) w = (Inl e, w')
             \<longrightarrow> fst (run_loop M T ms w) = Inl e)
        \<and> (currentState ms = State s \<and> \<not> machine_isTerminal M (State s)
                \<and> transitionHandlers M (statusOf M s) = Some h
                \<and> (\<forall>v. validators M (statusOf M s) = Some v \<longrightarrow> v s)
                \<and> outlasts T (stepCount ms)
             \<longrightarrow> (\<exists>e. fst (run_loop M T ms w) = Inl e
                      \<and> (e = Error_no_handler ''undefined'' \<or> (\<exists>r. e = Error_cancelled r)
                          \<or> (\<exists>a b. e = Error_max_steps a b)
                          \<or> (\<exists>a b. e = Error_max_duration a b)))))
   \<and> fst (research cfg P T q ms0 w0)
       = (case fst (manage (initialize q (clock T (clockReads ms0))) w0) of
            Inl e \<Rightarrow> Inl e
          | Inr _ \<Rightarrow>
              (case run (createStateMachine cfg P) T (tick ms0)
                      (snd (manage (initialize q (clock T (clockReads ms0))) w0)) of
                 (Inl e, ms1, w1) \<Rightarrow> Inl e
               | (Inr TimerCallback, ms1, w1) \<Rightarrow>
                   Inl (Error ''Research terminated in non-terminal state'')
               | (Inr (State s), ms1, w1) \<Rightarrow>
                   if isTerminal s then Inr (fst (buildResult T s ms1 w1))
                   else Inl (Error ''Research terminated in non-terminal state'')))"
proof (intro conjI)
  show "fst (run M T ms w) = Inr c \<longrightarrow> machine_isTerminal M c"
    using run_bounds [of M T ms w] by blast
  show "stepCount ms \<le> stepCount (fst (snd (run M T ms w)))"
    using run_bounds [of M T ms w] by blast
  show "stepCount (fst (snd (run M T ms w))) \<le> max (stepCount ms) (maxSteps (sm_options M))"
    using run_bounds [of M T ms w] by blast
  show "\<not> machine_isTerminal M (currentState ms) \<and> isCancelled ms
      \<longrightarrow> run_loop M T ms w = (Inl (Error_cancelled (cancelReason ms)), ms, w)"
    by (simp add: run_loop_throw run_iteration_cancelled)
  show "\<not> machine_isTerminal M (currentState ms) \<and> \<not> isCancelled ms
        \<and> maxSteps (sm_options M) \<le> stepCount ms
      \<longrightarrow> run_loop M T ms w
            = (Inl (Error_max_steps (maxSteps (sm_options M)) (stepCount ms)), ms, w)"
    by (simp add: run_loop_throw run_iteration_max_steps)
  show "\<not> machine_isTerminal M (currentState ms) \<and> \<not> isCancelled ms
        \<and> stepCount ms < maxSteps (sm_options M)
        \<and> maxDuration (sm_options M) < clock T (clockReads ms) - machine_startTime ms
      \<longrightarrow> run_loop M T ms w
            = (Inl (Error_max_duration (maxDuration (sm_options M))
                      (clock T (clockReads ms) - machine_startTime ms)), tick ms, w)"
    by (simp add: run_loop_throw run_iteration_max_duration)
  show "\<not> isCancelled ms \<and> stepCount ms < maxSteps (sm_options M)
        \<and> clock T (clockReads ms) - machine_startTime ms \<le> maxDuration (sm_options M)
      \<longrightarrow>
        (currentState ms = TimerCallback
           \<longrightarrow> run_loop M T ms w = (Inl (Error_no_handler ''undefined''), tick ms, w))
        \<and> (currentState ms = State s \<and> \<not> machine_isTerminal M (State s)
                \<and> transitionHandlers M (statusOf M s) = None
             \<longrightarrow> run_loop M T ms w = (Inl (Error_no_handler (statusOf M s)), tick ms, w))
        \<and> (currentState ms = State s \<and> \<not> machine_isTerminal M (State s)
                \<and> transitionHandlers M (statusOf M s) = Some h
                \<and> validators M (statusOf M s) = Some v \<and> \<not> v s
             \<longrightarrow> run_loop M T ms w = (Inl (Error_invalid_state (statusOf M s)), tick ms, w))
        \<and> (currentState ms = State s \<and> \<not> machine_isTerminal M (State s)
                \<and> transitionHandlers M (statusOf M s) = Some h
                \<and> (\<forall>v. validators M (statusOf M s) = Some v \<longrightarrow> v s)
                \<and> \<not> outlasts T (stepCount ms)
                \<and> h s (clock T (Suc (clockReads ms))) w = (Inl e, w')
             \<longrightarrow> fst (run_loop M T ms w) = Inl e)
        \<and> (currentState ms = State s \<and> \<not> machine_isTerminal M (State s)
                \<and> transitionHandlers M (statusOf M s) = Some h
                \<and> (\<forall>v. validators M (statusOf M s) = Some v \<longrightarrow> v s)
                \<and> outlasts T (stepCount ms)
             \<longrightarrow> (\<exists>e. fst (run_loop M T ms w) = Inl e
                      \<and> (e = Error_no_handler ''undefined'' \<or> (\<exists>r. e = Error_cancelled r)
                          \<or> (\<exists>a b. e = Error_max_steps a b)
                          \<or> (\<exists>a b. e = Error_max_duration a b))))"
  proof (intro impI conjI)
    assume g: "\<not> isCancelled ms \<and> stepCount ms < maxSteps (sm_options M)
        \<and> clock T (clockReads ms) - machine_startTime ms \<le> maxDuration (sm_options M)"
    {
      assume c: "currentState ms = TimerCallback"
      then have "\<not> machine_isTerminal M (currentState ms)"
        by (simp add: timer_callback_not_terminal)
      then show "run_loop M T ms w = (Inl (Error_no_handler ''undefined''), tick ms, w)"
        using g c by (simp add: run_loop_throw run_iteration_timer_callback)
    next
      assume c: "currentState ms = State s \<and> \<not> machine_isTerminal M (State s)
                \<and> transitionHandlers M (statusOf M s) = None"
      then show "run_loop M T ms w = (Inl (Error_no_handler (statusOf M s)), tick ms, w)"
        using g by (simp add: run_loop_throw run_iteration_no_handler)
    next
      assume c: "currentState ms = State s \<and> \<not> machine_isTerminal M (State s)
                \<and> transitionHandlers M (statusOf M s) = Some h
                \<and> validators M (statusOf M s) = Some v \<and> \<not> v s"
      then show "run_loop M T ms w = (Inl (Error_invalid_state (statusOf M s)), tick ms, w)"
        using g by (simp add: run_loop_throw run_iteration_invalid_state)
    next
      assume c: "currentState ms = State s \<and> \<not> machine_isTerminal M (State s)
                \<and> transitionHandlers M (statusOf M s) = Some h
                \<and> (\<forall>v. validators M (statusOf M s) = Some v \<longrightarrow> v s)
                \<and> \<not> outlasts T (stepCount ms)
                \<and> h s (clock T (Suc (clockReads ms))) w = (Inl e, w')"
      then have "fst (run_iteration M T ms w) = Inl e"
        using g run_iteration_handler_throws [where ms = ms and M = M and T = T and s = s
                  and h = h and w = w and e = e and w' = w']
        by blast
      with c show "fst (run_loop M T ms w) = Inl e"
        by (intro run_loop_throw_fst) simp_all
    next
      assume c: "currentState ms = State s \<and> \<not> machine_isTerminal M (State s)
                \<and> transitionHandlers M (statusOf M s) = Some h
                \<and> (\<forall>v. validators M (statusOf M s) = Some v \<longrightarrow> v s)
                \<and> outlasts T (stepCount ms)"
      from c have nt: "\<not> machine_isTerminal M (currentState ms)" by simp
      from c have c1: "currentState ms = State s" "transitionHandlers M (statusOf M s) = Some h"
        "\<forall>v. validators M (statusOf M s) = Some v \<longrightarrow> v s" "outlasts T (stepCount ms)"
        by blast+
      from g have g1: "\<not> isCancelled ms" "stepCount ms < maxSteps (sm_options M)"
        "clock T (clockReads ms) - machine_startTime ms \<le> maxDuration (sm_options M)"
        by blast+
      show "\<exists>e. fst (run_loop M T ms w) = Inl e
                      \<and> (e = Error_no_handler ''undefined'' \<or> (\<exists>r. e = Error_cancelled r)
                          \<or> (\<exists>a b. e = Error_max_steps a b)
                          \<or> (\<exists>a b. e = Error_max_duration a b))"
        by (rule run_loop_outlasts [OF nt g1 c1])
    }
  qed
  show "fst (research cfg P T q ms0 w0)
       = (case fst (manage (initialize q (clock T (clockReads ms0))) w0) of
            Inl e \<Rightarrow> Inl e
          | Inr _ \<Rightarrow>
              (case run (createStateMachine cfg P) T (tick ms0)
                      (snd (manage (initialize q (clock T (clockReads ms0))) w0)) of
                 (Inl e, ms1, w1) \<Rightarrow> Inl e
               | (Inr TimerCallback, ms1, w1) \<Rightarrow>
                   Inl (Error ''Research terminated in non-terminal state'')
               | (Inr (State s), ms1, w1) \<Rightarrow>
                   if isTerminal s then Inr (fst (buildResult T s ms1 w1))
                   else Inl (Error ''Research terminated in non-terminal state'')))"
    by (rule research_result)
qed

text \<open>
  C1 at concrete runs of a machine made with \<open>createStateMachine\<close>: from \<open>idle\<close> the run
  returns the completed state after two steps; cancelled beforehand it throws the
  cancellation error; run a second time after three steps of spinning it throws the
  max-steps error; with the jumping clock it throws the max-duration error; from
  \<open>lost\<close>, \<open>guarded\<close> and \<open>broken\<close> it throws the missing-handler error, the invalid-state
  error and the handler's own error; with a first transition that outlasts the timeout
  it throws too. And \<open>research\<close> on a new agent throws what its run throws.
\<close>

theorem C1_run_terminates_witness:
  "fst (run toy_machine steady (new_StateMachine ''idle'') ()) = Inr (State ''completed'')
   \<and> machine_isTerminal toy_machine (State ''completed'')
   \<and> stepCount (fst (snd (run toy_machine steady (new_StateMachine ''idle'') ()))) \<le> 3
   \<and> fst (run toy_machine steady (cancel ''stop'' (new_StateMachine ''idle'')) ())
       = Inl (Error_cancelled (Some ''stop''))
   \<and> fst (run toy_machine steady
            (fst (snd (run toy_machine steady (new_StateMachine ''spinning'') ()))) ())
       = Inl (Error_max_steps 3 3)
   \<and> fst (run toy_machine jumping (new_StateMachine ''idle'') ())
       = Inl (Error_max_duration 1000 5000)
   \<and> fst (run toy_machine steady (new_StateMachine ''lost'') ()) = Inl (Error_no_handler ''lost'')
   \<and> fst (run toy_machine steady (new_StateMachine ''guarded'') ())
       = Inl (Error_invalid_state ''guarded'')
   \<and> fst (run toy_machine steady (new_StateMachine ''broken'') ()) = Inl (Error ''boom'')
   \<and> (\<exists>e. fst (run toy_machine stalling (new_StateMachine ''idle'') ()) = Inl e)
   \<and> fst (research example_config garbage_services steady ''q''
            (new_StateMachine Idle) (new_AgentWorld fresh_manager))
       = Inl (ConfigurationError ''Query not initialized'')"
proof -
  define enter :: "Timing \<Rightarrow> string StateMachine \<Rightarrow> string StateMachine"
    where "enter T ms0 = (tick ms0)\<lparr>machine_startTime := clock T (clockReads ms0)\<rparr>" for T ms0
  have run_enter: "run toy_machine T ms0 () = run_loop toy_machine T (enter T ms0) ()" for T ms0
    by (simp add: run_def enter_def)
  have opts: "maxSteps (sm_options toy_machine) = 3" "maxDuration (sm_options toy_machine) = 1000"
    "statusOf toy_machine = (\<lambda>s. s)"
    by (simp_all add: toy_machine_def createStateMachine_generic_def toy_options_def)
  have r: "fst (run toy_machine steady (new_StateMachine ''idle'') ()) = Inr (State ''completed'')"
    by code_simp
  have 1: "machine_isTerminal toy_machine (State ''completed'')"
    using r
    by (rule C1_run_terminates [where M = toy_machine and T = steady
          and ms = "new_StateMachine ''idle''" and w = "()", THEN conjunct1, THEN mp])
  have 2: "stepCount (fst (snd (run toy_machine steady (new_StateMachine ''idle'') ()))) \<le> 3"
    using C1_run_terminates [where M = toy_machine and T = steady
          and ms = "new_StateMachine ''idle''" and w = "()", THEN conjunct2, THEN conjunct2,
          THEN conjunct1]
    by (simp add: opts new_StateMachine_def)
  have "run_loop toy_machine steady (enter steady (cancel ''stop'' (new_StateMachine ''idle''))) ()
      = (Inl (Error_cancelled (cancelReason (enter steady (cancel ''stop'' (new_StateMachine ''idle''))))),
         enter steady (cancel ''stop'' (new_StateMachine ''idle'')), ())"
    by (rule C1_run_terminates [where M = toy_machine and T = steady and ms = "enter steady (cancel ''stop'' (new_StateMachine ''idle''))" and w = "()", THEN conjunct2, THEN conjunct2, THEN conjunct2, THEN conjunct1, THEN mp])
       (simp add: cancel_def enter_def tick_def new_StateMachine_def machine_isTerminal_def statusOfCurrent_def toy_machine_def createStateMachine_generic_def toy_options_def steady_def)
  then have 3: "fst (run toy_machine steady (cancel ''stop'' (new_StateMachine ''idle'')) ())
       = Inl (Error_cancelled (Some ''stop''))"
    by (simp add: run_enter) (simp add: enter_def tick_def cancel_def)
  define spun where
    "spun = fst (snd (run toy_machine steady (new_StateMachine ''spinning'') ()))"
  have spun: "currentState spun = State ''spinning''" "\<not> isCancelled spun" "stepCount spun = 3"
    unfolding spun_def by code_simp+
  have "run_loop toy_machine steady (enter steady spun) ()
      = (Inl (Error_max_steps (maxSteps (sm_options toy_machine)) (stepCount (enter steady spun))),
         enter steady spun, ())"
    by (rule C1_run_terminates [where M = toy_machine and T = steady and ms = "enter steady spun" and w = "()", THEN conjunct2, THEN conjunct2, THEN conjunct2, THEN conjunct2, THEN conjunct1, THEN mp])
       (simp add: spun enter_def tick_def new_StateMachine_def machine_isTerminal_def statusOfCurrent_def toy_machine_def createStateMachine_generic_def toy_options_def steady_def)
  then have 4: "fst (run toy_machine steady spun ()) = Inl (Error_max_steps 3 3)"
    by (simp add: run_enter opts) (simp add: enter_def tick_def spun)
  have "run_loop toy_machine jumping (enter jumping (new_StateMachine ''idle'')) ()
      = (Inl (Error_max_duration (maxDuration (sm_options toy_machine))
                (clock jumping (clockReads (enter jumping (new_StateMachine ''idle'')))
                   - machine_startTime (enter jumping (new_StateMachine ''idle'')))),
         tick (enter jumping (new_StateMachine ''idle'')), ())"
    by (rule C1_run_terminates [where M = toy_machine and T = jumping and ms = "enter jumping (new_StateMachine ''idle'')" and w = "()", THEN conjunct2, THEN conjunct2, THEN conjunct2, THEN conjunct2, THEN conjunct2, THEN conjunct1, THEN mp])
       (simp add: jumping_def enter_def tick_def new_StateMachine_def machine_isTerminal_def statusOfCurrent_def toy_machine_def createStateMachine_generic_def toy_options_def steady_def)
  then have 5: "fst (run toy_machine jumping (new_StateMachine ''idle'') ())
       = Inl (Error_max_duration 1000 5000)"
    by (simp add: run_enter opts)
       (simp add: enter_def tick_def new_StateMachine_def jumping_def steady_def)
  have "run_loop toy_machine steady (enter steady (new_StateMachine ''lost'')) ()
      = (Inl (Error_no_handler (statusOf toy_machine ''lost'')),
         tick (enter steady (new_StateMachine ''lost'')), ())"
    by (rule C1_run_terminates [where M = toy_machine and T = steady and ms = "enter steady (new_StateMachine ''lost'')" and w = "()" and s = "''lost''", THEN conjunct2, THEN conjunct2, THEN conjunct2, THEN conjunct2, THEN conjunct2, THEN conjunct2, THEN conjunct1, THEN mp, THEN conjunct2, THEN conjunct1, THEN mp];
        simp add: enter_def tick_def new_StateMachine_def machine_isTerminal_def statusOfCurrent_def toy_machine_def createStateMachine_generic_def toy_options_def steady_def)
  then have 6: "fst (run toy_machine steady (new_StateMachine ''lost'') ())
       = Inl (Error_no_handler ''lost'')"
    by (simp add: run_enter opts)
  have "run_loop toy_machine steady (enter steady (new_StateMachine ''guarded'')) ()
      = (Inl (Error_invalid_state (statusOf toy_machine ''guarded'')),
         tick (enter steady (new_StateMachine ''guarded'')), ())"
    by (rule C1_run_terminates [where M = toy_machine and T = steady and ms = "enter steady (new_StateMachine ''guarded'')" and w = "()" and s = "''guarded''"
          and h = "\<lambda>s now w. (Inr ''completed'', w)" and v = "\<lambda>s. False", THEN conjunct2, THEN conjunct2, THEN conjunct2, THEN conjunct2, THEN conjunct2, THEN conjunct2, THEN conjunct1, THEN mp, THEN conjunct2, THEN conjunct2, THEN conjunct1, THEN mp];
        simp add: enter_def tick_def new_StateMachine_def machine_isTerminal_def statusOfCurrent_def toy_machine_def createStateMachine_generic_def toy_options_def steady_def)
  then have 7: "fst (run toy_machine steady (new_StateMachine ''guarded'') ())
       = Inl (Error_invalid_state ''guarded'')"
    by (simp add: run_enter opts)
  have "fst (run_loop toy_machine steady (enter steady (new_StateMachine ''broken'')) ())
      = Inl (Error ''boom'')"
    by (rule C1_run_terminates [where M = toy_machine and T = steady and ms = "enter steady (new_StateMachine ''broken'')" and w = "()" and s = "''broken''"
          and h = "\<lambda>s now w. (Inl (Error ''boom''), w)" and w' = "()", THEN conjunct2, THEN conjunct2, THEN conjunct2, THEN conjunct2, THEN conjunct2, THEN conjunct2, THEN conjunct1, THEN mp, THEN conjunct2, THEN conjunct2, THEN conjunct2, THEN conjunct1, THEN mp];
        simp add: enter_def tick_def new_StateMachine_def machine_isTerminal_def statusOfCurrent_def toy_machine_def createStateMachine_generic_def toy_options_def steady_def)
  then have 8: "fst (run toy_machine steady (new_StateMachine ''broken'') ()) = Inl (Error ''boom'')"
    by (simp add: run_enter)
  have "\<exists>e. fst (run_loop toy_machine stalling (enter stalling (new_StateMachine ''idle'')) ())
              = Inl e
          \<and> (e = Error_no_handler ''undefined'' \<or> (\<exists>r. e = Error_cancelled r)
              \<or> (\<exists>a b. e = Error_max_steps a b) \<or> (\<exists>a b. e = Error_max_duration a b))"
    by (rule C1_run_terminates [where M = toy_machine and T = stalling and ms = "enter stalling (new_StateMachine ''idle'')" and w = "()" and s = "''idle''"
          and h = "\<lambda>s now w. (Inr ''working'', w)", THEN conjunct2, THEN conjunct2, THEN conjunct2, THEN conjunct2, THEN conjunct2, THEN conjunct2, THEN conjunct1, THEN mp, THEN conjunct2, THEN conjunct2, THEN conjunct2, THEN conjunct2, THEN mp];
        simp add: stalling_def enter_def tick_def new_StateMachine_def machine_isTerminal_def statusOfCurrent_def toy_machine_def createStateMachine_generic_def toy_options_def steady_def)
  then have 9: "\<exists>e. fst (run toy_machine stalling (new_StateMachine ''idle'') ()) = Inl e"
    by (auto simp: run_enter)
  have i: "manage (initialize ''q'' (clock steady (clockReads (new_StateMachine Idle))))
             (new_AgentWorld fresh_manager)
           = (Inr (), new_AgentWorld (fresh_manager\<lparr>state := (state fresh_manager)\<lparr>lastUpdate := 0\<rparr>\<rparr>))"
    by (simp add: manage_def initialize_def update_def produce_def initialize_updater_def
          new_AgentWorld_def fresh_manager_def new_StateManager_def steady_def
          new_StateMachine_def)
  have rn: "fst (run (createStateMachine example_config garbage_services) steady
              (tick (new_StateMachine Idle))
              (new_AgentWorld (fresh_manager\<lparr>state := (state fresh_manager)\<lparr>lastUpdate := 0\<rparr>\<rparr>)))
            = Inl (ConfigurationError ''Query not initialized'')"
    by code_simp
  have 10: "fst (research example_config garbage_services steady ''q''
            (new_StateMachine Idle) (new_AgentWorld fresh_manager))
       = Inl (ConfigurationError ''Query not initialized'')"
    using rn
    by (auto simp: C1_run_terminates [where cfg = example_config and P = garbage_services
          and T = steady and q = "''q''" and ?ms0.0 = "new_StateMachine Idle"
          and ?w0.0 = "new_AgentWorld fresh_manager", THEN conjunct2, THEN conjunct2, THEN conjunct2, THEN conjunct2, THEN conjunct2, THEN conjunct2, THEN conjunct2] i split: prod.splits)
  from r 1 2 3 4 5 6 7 8 9 10 show ?thesis
    unfolding spun_def by blast
qed

text \<open>
  C1 as the specification states it fails, on a machine made with \<open>createStateMachine\<close>
  and on a new agent with a valid configuration. The machine whose state \<open>spinning\<close>
  leads to itself makes three transitions and then throws the max-steps error; it is
  left in the state \<open>spinning\<close>, which is not terminal. \<open>research\<close> on a new agent, with
  a maximal duration of one millisecond and a clock that has advanced by five seconds
  at the first check, throws the max-duration error to the caller. No terminal state
  is emitted in either run.
\<close>

theorem C1_counterexample:
  "fst (run toy_machine steady (new_StateMachine ''spinning'') ()) = Inl (Error_max_steps 3 3)
   \<and> currentState (fst (snd (run toy_machine steady (new_StateMachine ''spinning'') ())))
       = State ''spinning''
   \<and> stepCount (fst (snd (run toy_machine steady (new_StateMachine ''spinning'') ()))) = 3
   \<and> \<not> machine_isTerminal toy_machine (State ''spinning'')
   \<and> fst (research hasty_config garbage_services jumping ''q''
            (new_StateMachine Idle) (new_AgentWorld fresh_manager))
       = Inl (Error_max_duration 1 5000)"
  by code_simp

section \<open>Properties of the agent\<close>

lemma manage_fst: "fst (manage f w) = fst (f (stateManager w))"
  by (simp add: manage_def split_beta)

lemma manage_snd: "snd (manage f w) = w\<lparr>stateManager := snd (f (stateManager w))\<rparr>"
  by (simp add: manage_def split_beta)

lemma agent_machine_isTerminal:
  "machine_isTerminal (createStateMachine cfg P) (State s) \<longleftrightarrow> isTerminal s"
  by (auto simp: machine_isTerminal_def statusOfCurrent_def createStateMachine_def isTerminal_def)

lemma agent_options:
  "maxSteps (sm_options (createStateMachine cfg P)) = cfg_maxSteps cfg"
  "maxDuration (sm_options (createStateMachine cfg P)) = cfg_maxDuration cfg"
  "statusOf (createStateMachine cfg P) = status"
  by (simp_all add: createStateMachine_def)

lemma agent_validators:
  "\<not> isTerminal s \<Longrightarrow>
   \<exists>v. validators (createStateMachine cfg P) (status s) = Some v \<and> v s"
  by (cases s)
     (simp_all add: createStateMachine_def isTerminal_def isIdle_def isInitializing_def
        isSearching_def isReading_def isEvaluating_def isReflecting_def)

lemma agent_handlers:
  "transitionHandlers (createStateMachine cfg P) ''idle'' = Some (handleIdle cfg P)"
  "transitionHandlers (createStateMachine cfg P) ''initializing'' = Some (handleInitializing cfg P)"
  "transitionHandlers (createStateMachine cfg P) ''searching'' = Some (handleSearching cfg P)"
  "transitionHandlers (createStateMachine cfg P) ''reading'' = Some (handleReading cfg P)"
  "transitionHandlers (createStateMachine cfg P) ''evaluating'' = Some (handleEvaluating cfg P)"
  "transitionHandlers (createStateMachine cfg P) ''reflecting'' = Some (handleReflecting cfg P)"
  by (simp_all add: createStateMachine_def)

lemma handleIdle_next:
  "fst (handleIdle cfg P s now w) = Inr s' \<Longrightarrow> isInitializing s'"
  by (auto simp: handleIdle_def Let_def isInitializing_def split: if_splits)

lemma handleInitializing_next:
  "fst (handleInitializing cfg P s now w) = Inr s' \<Longrightarrow> isSearching s'"
  by (auto simp: handleInitializing_def isSearching_def
      split: AgentState.splits prod.splits sum.splits)

lemma handleSearching_try_next:
  "fst (handleSearching_try P n q now w) = Inr s' \<Longrightarrow>
     isSearching s' \<or> isReading s' \<or> isEvaluating s'"
  by (auto simp: handleSearching_try_def Let_def isSearching_def isReading_def isEvaluating_def
      split: prod.splits SearchOutcome.splits sum.splits AgentAction.splits list.splits)

lemma handleSearching_catch_throws:
  "\<exists>e. fst (handleSearching_catch q code now w) = Inl e"
  by (auto simp: handleSearching_catch_def split: prod.splits sum.splits)

lemma handleSearching_next:
  "fst (handleSearching cfg P s now w) = Inr s' \<Longrightarrow> isSearching s' \<or> isReading s' \<or> isEvaluating s'"
proof (cases s)
  case (Searching n q)
  obtain r w1 where t: "handleSearching_try P n q now w = (r, w1)"
    by (cases "handleSearching_try P n q now w") auto
  assume a: "fst (handleSearching cfg P s now w) = Inr s'"
  show ?thesis
  proof (cases r)
    case (Inl code)
    with a t Searching handleSearching_catch_throws [of q code now w1] show ?thesis
      by (auto simp: handleSearching_def)
  next
    case (Inr next_state)
    with a t Searching have "next_state = s'" by (simp add: handleSearching_def)
    with Inr t handleSearching_try_next [of P n q now w s'] show ?thesis by simp
  qed
qed (simp_all add: handleSearching_def)

lemma handleReading_try_next:
  "fst (handleReading_try P n u now w) = Inr s' \<Longrightarrow> isEvaluating s'"
  by (auto simp: handleReading_try_def Let_def isEvaluating_def
      split: prod.splits ReadOutcome.splits sum.splits)

lemma handleReading_catch_throws:
  "\<exists>e. fst (handleReading_catch u original now w) = Inl e"
  by (auto simp: handleReading_catch_def split: prod.splits sum.splits)

lemma handleReading_next:
  "fst (handleReading cfg P s now w) = Inr s' \<Longrightarrow> isEvaluating s'"
proof (cases s)
  case (Reading n u)
  obtain r w1 where t: "handleReading_try P n u now w = (r, w1)"
    by (cases "handleReading_try P n u now w") auto
  assume a: "fst (handleReading cfg P s now w) = Inr s'"
  show ?thesis
  proof (cases r)
    case (Inl original)
    with a t Reading handleReading_catch_throws [of u original now w1] show ?thesis
      by (auto simp: handleReading_def)
  next
    case (Inr next_state)
    with a t Reading have "next_state = s'" by (simp add: handleReading_def)
    with Inr t handleReading_try_next [of P n u now w s'] show ?thesis by simp
  qed
qed (simp_all add: handleReading_def)

lemma handleEvaluating_next:
  "fst (handleEvaluating cfg P s now w) = Inr s' \<Longrightarrow> isReflecting s' \<or> (\<exists>a refs. s' = Completed a refs)"
  by (auto simp: handleEvaluating_def Let_def isReflecting_def
      split: AgentState.splits prod.splits sum.splits if_splits)

lemma handleReflecting_next:
  "fst (handleReflecting cfg P s now w) = Inr s' \<Longrightarrow>
     isSearching s' \<or> isReading s' \<or> (\<exists>a refs. s' = Completed a refs)"
  by (auto simp: handleReflecting_def Let_def isSearching_def isReading_def
      split: AgentState.splits prod.splits sum.splits AgentAction.splits list.splits)

lemma agent_handler_never_cancels:
  assumes "transitionHandlers (createStateMachine cfg P) name = Some h"
    and "fst (h s now w) = Inr s'"
  shows "status s' \<noteq> ''cancelled'' \<and> status s' \<noteq> ''failed''"
proof -
  from assms(1) have "h = handleIdle cfg P \<or> h = handleInitializing cfg P \<or> h = handleSearching cfg P
      \<or> h = handleReading cfg P \<or> h = handleEvaluating cfg P \<or> h = handleReflecting cfg P"
    by (auto simp: createStateMachine_def split: if_splits)
  with assms(2) show ?thesis
    by (auto dest!: handleIdle_next handleInitializing_next handleSearching_next
          handleReading_next handleEvaluating_next handleReflecting_next
        simp: isInitializing_def isSearching_def isReading_def isEvaluating_def isReflecting_def)
qed

text \<open>
  What \<open>research\<close> does on every agent that a caller can build: the state manager has
  been through the constructor and any sequence of mutator calls, so its query is
  empty and its step is 0. When the manager is frozen or the query asked is empty,
  \<open>initialize\<close> throws the \<open>TypeError\<close>. Otherwise, on a machine that is neither
  cancelled nor at a limit, the idle handler finds no query and throws the
  \<open>ConfigurationError\<close>.
\<close>

lemma api_manager_fields:
  "query (state (calls cs (new_StateManager opts t))) = []
   \<and> step (state (calls cs (new_StateManager opts t))) = 0
   \<and> b_used (budget (state (calls cs (new_StateManager opts t)))) = 0
   \<and> knowledge (state (calls cs (new_StateManager opts t))) = []
   \<and> urls (state (calls cs (new_StateManager opts t))) = []
   \<and> content (state (calls cs (new_StateManager opts t))) = []"
  using calls_fields [of cs "new_StateManager opts t"]
  by (simp add: new_StateManager_def)

lemma research_via_api_throws_TypeError:
  assumes "sm = calls cs (new_StateManager opts t)" and "frozen sm \<or> q = []"
  shows "fst (research cfg P T q ms (new_AgentWorld sm)) = Inl (TypeError_read_only ''lastUpdate'')"
proof -
  have "fst (manage (initialize q (clock T (clockReads ms))) (new_AgentWorld sm))
          = Inl (TypeError_read_only ''lastUpdate'')"
    using assms api_manager_fields [of cs opts t]
    by (auto simp: manage_fst new_AgentWorld_def initialize_def update_throws
          initialize_updater_def)
  then show ?thesis by (rule research_initialize_throws)
qed

lemma research_via_api_throws_ConfigurationError:
  assumes sm: "sm = calls cs (new_StateManager opts t)" and nf: "\<not> frozen sm" and q: "q \<noteq> []"
    and ms: "currentState ms = State Idle" "\<not> isCancelled ms" "stepCount ms < cfg_maxSteps cfg"
    and du: "clock T (Suc (Suc (clockReads ms))) - clock T (Suc (clockReads ms))
               \<le> cfg_maxDuration cfg"
    and ol: "\<not> outlasts T (stepCount ms)"
  shows "fst (research cfg P T q ms (new_AgentWorld sm))
           = Inl (ConfigurationError ''Query not initialized'')"
proof -
  let ?now = "clock T (clockReads ms)"
  let ?M = "createStateMachine cfg P"
  let ?w = "snd (manage (initialize q ?now) (new_AgentWorld sm))"
  let ?ms = "(tick (tick ms))\<lparr>machine_startTime := clock T (clockReads (tick ms))\<rparr>"
  have i: "fst (manage (initialize q ?now) (new_AgentWorld sm)) = Inr ()"
    using sm nf q api_manager_fields [of cs opts t]
    by (auto simp: manage_fst new_AgentWorld_def initialize_def update_throws
          initialize_updater_def)
  have qw: "getQuery (stateManager ?w) = []"
    using sm api_manager_fields [of cs opts t]
    by (auto simp: manage_snd new_AgentWorld_def initialize_def update_state getQuery_def)
  have h: "handleIdle cfg P Idle (clock T (Suc (clockReads ?ms))) ?w
             = (Inl (ConfigurationError ''Query not initialized''), ?w)"
    using qw by (simp add: handleIdle_def isIdle_def)
  have "fst (run_iteration ?M T ?ms ?w) = Inl (ConfigurationError ''Query not initialized'')"
    using ms du ol h
    by (intro run_iteration_handler_throws [where s = Idle and h = "handleIdle cfg P" and w' = ?w])
       (auto simp: tick_def agent_options agent_handlers createStateMachine_def isIdle_def)
  then have "fst (run_loop ?M T ?ms ?w) = Inl (ConfigurationError ''Query not initialized'')"
    using ms by (intro run_loop_throw_fst) (simp_all add: tick_def agent_machine_isTerminal isTerminal_def)
  then have "fst (run ?M T (tick ms) ?w) = Inl (ConfigurationError ''Query not initialized'')"
    by (simp add: run_def)
  with i show ?thesis by (rule research_rethrows_fst)
qed

text \<open>
  C4 (as the code has it): a cancelled machine in a non-terminal state throws
  \<open>State machine cancelled: reason\<close> at the cancellation check, before anything else,
  and changes nothing. When \<open>cancel(reason)\<close> arrives while a transition is awaited and
  the transition ends in a non-terminal state, the next iteration throws that error;
  when the transition ends in a terminal state the loop returns that state and the
  cancellation is not looked at; when the transition throws, its error ends the run.
  \<open>research\<close> rethrows the error, so it returns no result; on an agent cancelled
  beforehand it throws the cancellation error and leaves the machine in the state it
  was in; and no handler of the agent ever returns the cancelled state.
\<close>

theorem C4_cancel_throws:
  "(\<not> machine_isTerminal M (currentState ms) \<and> isCancelled ms
      \<longrightarrow> run_loop M T ms w = (Inl (Error_cancelled (cancelReason ms)), ms, w))
   \<and> (\<not> machine_isTerminal M (currentState ms) \<and> run_iteration M T ms w = (Inr u, ms', w')
        \<and> cancelRequests T (stepCount ms) = Some reason
      \<longrightarrow> run_loop M T ms w
            = (if machine_isTerminal M (currentState ms') then (Inr (currentState ms'), ms', w')
               else (Inl (Error_cancelled (Some reason)), ms', w')))
   \<and> (\<not> machine_isTerminal M (currentState ms) \<and> run_iteration M T ms w = (Inl e, ms', w')
      \<longrightarrow> run_loop M T ms w = (Inl e, ms', w'))
   \<and> (fst (manage (initialize q (clock T (clockReads ms0))) w0) = Inr ()
        \<and> fst (run (createStateMachine cfg P) T (tick ms0)
                 (snd (manage (initialize q (clock T (clockReads ms0))) w0)))
            = Inl (Error_cancelled r)
      \<longrightarrow> fst (research cfg P T q ms0 w0) = Inl (Error_cancelled r))
   \<and> (fst (manage (initialize q (clock T (clockReads ms0))) w0) = Inr ()
        \<and> isCancelled ms0 \<and> currentState ms0 = State s0 \<and> \<not> isTerminal s0
      \<longrightarrow> fst (research cfg P T q ms0 w0) = Inl (Error_cancelled (cancelReason ms0))
          \<and> currentState (fst (snd (research cfg P T q ms0 w0))) = State s0)
   \<and> (transitionHandlers (createStateMachine cfg P) name = Some h \<and> fst (h s now w1) = Inr s'
      \<longrightarrow> status s' \<noteq> ''cancelled'')"
proof (intro conjI impI)
  assume "\<not> machine_isTerminal M (currentState ms) \<and> isCancelled ms"
  then show "run_loop M T ms w = (Inl (Error_cancelled (cancelReason ms)), ms, w)"
    by (simp add: run_loop_throw run_iteration_cancelled)
next
  assume a: "\<not> machine_isTerminal M (currentState ms) \<and> run_iteration M T ms w = (Inr u, ms', w')
        \<and> cancelRequests T (stepCount ms) = Some reason"
  from a have it: "run_iteration M T ms w = (Inr u, ms', w')"
    and cr: "cancelRequests T (stepCount ms) = Some reason"
    and nt: "\<not> machine_isTerminal M (currentState ms)"
    by simp_all
  have c: "isCancelled ms' \<and> cancelReason ms' = Some reason"
    using it cr by (rule run_iteration_cancel_received)
  have n: "run_loop M T ms w = run_loop M T ms' w'"
    using nt it by (rule run_loop_next)
  show "run_loop M T ms w
            = (if machine_isTerminal M (currentState ms') then (Inr (currentState ms'), ms', w')
               else (Inl (Error_cancelled (Some reason)), ms', w'))"
  proof (cases "machine_isTerminal M (currentState ms')")
    case True
    with n show ?thesis by (simp add: run_loop_terminal)
  next
    case False
    with n c show ?thesis by (simp add: run_loop_throw run_iteration_cancelled)
  qed
next
  assume "\<not> machine_isTerminal M (currentState ms) \<and> run_iteration M T ms w = (Inl e, ms', w')"
  then show "run_loop M T ms w = (Inl e, ms', w')"
    by (simp add: run_loop_throw)
next
  assume "fst (manage (initialize q (clock T (clockReads ms0))) w0) = Inr ()
        \<and> fst (run (createStateMachine cfg P) T (tick ms0)
                 (snd (manage (initialize q (clock T (clockReads ms0))) w0)))
            = Inl (Error_cancelled r)"
  then show "fst (research cfg P T q ms0 w0) = Inl (Error_cancelled r)"
    by (simp add: research_rethrows_fst)
next
  assume a: "fst (manage (initialize q (clock T (clockReads ms0))) w0) = Inr ()
        \<and> isCancelled ms0 \<and> currentState ms0 = State s0 \<and> \<not> isTerminal s0"
  let ?ms = "(tick (tick ms0))\<lparr>machine_startTime := clock T (clockReads (tick ms0))\<rparr>"
  obtain i w' where m: "manage (initialize q (clock T (clockReads ms0))) w0 = (i, w')"
    by (cases "manage (initialize q (clock T (clockReads ms0))) w0") auto
  with a have i: "i = Inr ()" by simp
  have "run_loop (createStateMachine cfg P) T ?ms w'
          = (Inl (Error_cancelled (cancelReason ?ms)), ?ms, w')"
    using a
    by (intro run_loop_throw run_iteration_cancelled)
       (simp_all add: tick_def agent_machine_isTerminal)
  then have r: "run (createStateMachine cfg P) T (tick ms0) w'
          = (Inl (Error_cancelled (cancelReason ms0)), ?ms, w')"
    by (simp add: run_def tick_def)
  have res: "research cfg P T q ms0 w0 = (Inl (Error_cancelled (cancelReason ms0)), ?ms, w')"
    by (simp add: research_def m i r handleError_def)
  from res show "fst (research cfg P T q ms0 w0) = Inl (Error_cancelled (cancelReason ms0))"
    by simp
  from res a show "currentState (fst (snd (research cfg P T q ms0 w0))) = State s0"
    by (simp add: tick_def)
next
  assume "transitionHandlers (createStateMachine cfg P) name = Some h \<and> fst (h s now w1) = Inr s'"
  then have "transitionHandlers (createStateMachine cfg P) name = Some h" "fst (h s now w1) = Inr s'"
    by simp_all
  then show "status s' \<noteq> ''cancelled''"
    using agent_handler_never_cancels [of cfg P name h s now w1 s'] by simp
qed

text \<open>
  C4 at concrete runs. The machine made with \<open>createStateMachine\<close>: cancelled
  beforehand, it throws at once; cancelled during a first transition that ends in
  \<open>working\<close>, it throws at the next check; cancelled during a first transition that
  ends in \<open>completed\<close>, it returns that state; cancelled during a transition that
  throws, it throws the handler's error. A new agent cancelled before \<open>research\<close>
  throws the cancellation error and stays idle. The searching handler, called on a
  new agent's world, returns a state that is not the cancelled one.
\<close>

theorem C4_cancel_throws_witness:
  "fst (run toy_machine steady (cancel ''stop'' (new_StateMachine ''idle'')) ())
     = Inl (Error_cancelled (Some ''stop''))
   \<and> fst (run toy_machine cancelling (new_StateMachine ''idle'') ())
       = Inl (Error_cancelled (Some ''stop''))
   \<and> fst (run toy_machine cancelling (new_StateMachine ''working'') ())
       = Inr (State ''completed'')
   \<and> fst (run toy_machine cancelling (new_StateMachine ''broken'') ()) = Inl (Error ''boom'')
   \<and> fst (research example_config garbage_services steady ''q''
            (cancel ''stop'' (new_StateMachine Idle)) (new_AgentWorld fresh_manager))
       = Inl (Error_cancelled (Some ''stop''))
   \<and> currentState (fst (snd (research example_config garbage_services steady ''q''
            (cancel ''stop'' (new_StateMachine Idle)) (new_AgentWorld fresh_manager))))
       = State Idle
   \<and> fst (handleSearching example_config garbage_services (Searching 1 ''q'') 7
            (new_AgentWorld fresh_manager)) = Inr (Searching 2 ''q'')
   \<and> status (Searching 2 ''q'') \<noteq> ''cancelled''"
proof -
  define enter :: "Timing \<Rightarrow> string StateMachine \<Rightarrow> string StateMachine"
    where "enter T ms0 = (tick ms0)\<lparr>machine_startTime := clock T (clockReads ms0)\<rparr>" for T ms0
  have run_enter: "run toy_machine T ms0 () = run_loop toy_machine T (enter T ms0) ()" for T ms0
    by (simp add: run_def enter_def)
  have nt: "\<not> machine_isTerminal toy_machine
                (currentState (enter cancelling (new_StateMachine s)))"
    if "s \<in> {''idle'', ''working'', ''broken''}" for s
    using that by (auto simp: enter_def tick_def new_StateMachine_def machine_isTerminal_def statusOfCurrent_def toy_machine_def createStateMachine_generic_def toy_options_def steady_def cancelling_def)
  have cr: "cancelRequests cancelling (stepCount (enter cancelling (new_StateMachine s)))
              = Some ''stop''" for s :: string
    by (simp add: enter_def tick_def new_StateMachine_def machine_isTerminal_def statusOfCurrent_def toy_machine_def createStateMachine_generic_def toy_options_def steady_def cancelling_def)
  have "run_loop toy_machine steady (enter steady (cancel ''stop'' (new_StateMachine ''idle''))) ()
      = (Inl (Error_cancelled (cancelReason (enter steady (cancel ''stop'' (new_StateMachine ''idle''))))),
         enter steady (cancel ''stop'' (new_StateMachine ''idle'')), ())"
    by (rule C4_cancel_throws [where M = toy_machine and T = steady and ms = "enter steady (cancel ''stop'' (new_StateMachine ''idle''))" and w = "()", THEN conjunct1, THEN mp])
       (simp add: cancel_def enter_def tick_def new_StateMachine_def machine_isTerminal_def statusOfCurrent_def toy_machine_def createStateMachine_generic_def toy_options_def steady_def cancelling_def)
  then have 1: "fst (run toy_machine steady (cancel ''stop'' (new_StateMachine ''idle'')) ())
       = Inl (Error_cancelled (Some ''stop''))"
    by (simp add: run_enter) (simp add: enter_def tick_def cancel_def)
  define after_idle where
    "after_idle = fst (snd (run_iteration toy_machine cancelling
                              (enter cancelling (new_StateMachine ''idle'')) ()))"
  have "fst (run_iteration toy_machine cancelling (enter cancelling (new_StateMachine ''idle'')) ())
          = Inr ()"
    unfolding enter_def by code_simp
  then have it2: "run_iteration toy_machine cancelling (enter cancelling (new_StateMachine ''idle'')) ()
          = (Inr (), after_idle, ())"
    unfolding after_idle_def
    by (cases "run_iteration toy_machine cancelling (enter cancelling (new_StateMachine ''idle'')) ()")
       simp
  have cs2: "currentState after_idle = State ''working''"
    unfolding after_idle_def enter_def by code_simp
  have t2: "\<not> machine_isTerminal toy_machine (currentState after_idle)"
    by (simp add: cs2 machine_isTerminal_def statusOfCurrent_def toy_machine_def
          createStateMachine_generic_def)
  have "run_loop toy_machine cancelling (enter cancelling (new_StateMachine ''idle'')) ()
      = (if machine_isTerminal toy_machine (currentState after_idle)
         then (Inr (currentState after_idle), after_idle, ())
         else (Inl (Error_cancelled (Some ''stop'')), after_idle, ()))"
    by (rule C4_cancel_throws [where M = toy_machine and T = cancelling and ms = "enter cancelling (new_StateMachine ''idle'')" and w = "()" and u = "()" and ms' = after_idle and w' = "()"
          and reason = "''stop''", THEN conjunct2, THEN conjunct1, THEN mp])
       (intro conjI nt cr, simp, rule it2)
  then have 2: "fst (run toy_machine cancelling (new_StateMachine ''idle'') ())
       = Inl (Error_cancelled (Some ''stop''))"
    by (simp add: run_enter t2)
  define after_working where
    "after_working = fst (snd (run_iteration toy_machine cancelling
                                 (enter cancelling (new_StateMachine ''working'')) ()))"
  have "fst (run_iteration toy_machine cancelling (enter cancelling (new_StateMachine ''working'')) ())
          = Inr ()"
    unfolding enter_def by code_simp
  then have it3: "run_iteration toy_machine cancelling (enter cancelling (new_StateMachine ''working'')) ()
          = (Inr (), after_working, ())"
    unfolding after_working_def
    by (cases "run_iteration toy_machine cancelling (enter cancelling (new_StateMachine ''working'')) ()")
       simp
  have cs3: "currentState after_working = State ''completed''"
    unfolding after_working_def enter_def by code_simp
  have t3: "machine_isTerminal toy_machine (currentState after_working)"
    by (simp add: cs3 machine_isTerminal_def statusOfCurrent_def toy_machine_def
          createStateMachine_generic_def)
  have "run_loop toy_machine cancelling (enter cancelling (new_StateMachine ''working'')) ()
      = (if machine_isTerminal toy_machine (currentState after_working)
         then (Inr (currentState after_working), after_working, ())
         else (Inl (Error_cancelled (Some ''stop'')), after_working, ()))"
    by (rule C4_cancel_throws [where M = toy_machine and T = cancelling and ms = "enter cancelling (new_StateMachine ''working'')" and w = "()" and u = "()" and ms' = after_working and w' = "()"
          and reason = "''stop''", THEN conjunct2, THEN conjunct1, THEN mp])
       (intro conjI nt cr, simp, rule it3)
  then have 3: "fst (run toy_machine cancelling (new_StateMachine ''working'') ())
       = Inr (State ''completed'')"
    using t3 by (simp add: run_enter cs3)
  define after_broken where
    "after_broken = fst (snd (run_iteration toy_machine cancelling
                                (enter cancelling (new_StateMachine ''broken'')) ()))"
  have "fst (run_iteration toy_machine cancelling (enter cancelling (new_StateMachine ''broken'')) ())
          = Inl (Error ''boom'')"
    unfolding enter_def by code_simp
  then have it4: "run_iteration toy_machine cancelling (enter cancelling (new_StateMachine ''broken'')) ()
          = (Inl (Error ''boom''), after_broken, ())"
    unfolding after_broken_def
    by (cases "run_iteration toy_machine cancelling (enter cancelling (new_StateMachine ''broken'')) ()")
       simp
  have "run_loop toy_machine cancelling (enter cancelling (new_StateMachine ''broken'')) ()
      = (Inl (Error ''boom''), after_broken, ())"
    by (rule C4_cancel_throws [where M = toy_machine and T = cancelling and ms = "enter cancelling (new_StateMachine ''broken'')" and w = "()" and e = "Error ''boom''" and ms' = after_broken and w' = "()", THEN conjunct2, THEN conjunct2, THEN conjunct1, THEN mp])
       (intro conjI nt, simp, rule it4)
  then have 4: "fst (run toy_machine cancelling (new_StateMachine ''broken'') ()) = Inl (Error ''boom'')"
    by (simp add: run_enter)
  have i: "fst (manage (initialize ''q'' now) (new_AgentWorld fresh_manager)) = Inr ()" for now
    by (simp add: manage_fst initialize_def update_throws initialize_updater_def
          new_AgentWorld_def fresh_manager_def new_StateManager_def)
  have 5: "fst (research example_config garbage_services steady ''q''
            (cancel ''stop'' (new_StateMachine Idle)) (new_AgentWorld fresh_manager))
       = Inl (Error_cancelled (cancelReason (cancel ''stop'' (new_StateMachine Idle))))
     \<and> currentState (fst (snd (research example_config garbage_services steady ''q''
            (cancel ''stop'' (new_StateMachine Idle)) (new_AgentWorld fresh_manager))))
       = State Idle"
    by (rule C4_cancel_throws [where cfg = example_config and P = garbage_services
          and T = steady and q = "''q''" and ?ms0.0 = "cancel ''stop'' (new_StateMachine Idle)"
          and ?w0.0 = "new_AgentWorld fresh_manager" and ?s0.0 = Idle,
          THEN conjunct2, THEN conjunct2, THEN conjunct2, THEN conjunct2, THEN conjunct1,
          THEN mp])
       (simp add: i cancel_def new_StateMachine_def isTerminal_def)
  have h: "fst (handleSearching example_config garbage_services (Searching 1 ''q'') 7
            (new_AgentWorld fresh_manager)) = Inr (Searching 2 ''q'')"
    by code_simp
  have 6: "status (Searching 2 ''q'') \<noteq> ''cancelled''"
    by (rule C4_cancel_throws [where cfg = example_config and P = garbage_services
          and name = "''searching''" and h = "handleSearching example_config garbage_services"
          and s = "Searching 1 ''q''" and now = 7 and ?w1.0 = "new_AgentWorld fresh_manager"
          and s' = "Searching 2 ''q''",
          THEN conjunct2, THEN conjunct2, THEN conjunct2, THEN conjunct2, THEN conjunct2,
          THEN mp])
       (simp add: h agent_handlers)
  from 1 2 3 4 5 h 6 show ?thesis
    by (simp add: cancel_def)
qed

text \<open>
  C4 as the specification states it fails. A new agent is cancelled with reason \<open>stop\<close>
  and \<open>research\<close> is called: the call throws the cancellation error and the machine is
  still idle, not cancelled. \<open>cancel("stop")\<close> arrives while the first transition of
  \<open>research\<close> on a new agent is awaited: the call throws the error of that transition,
  and the machine, now cancelled, is still idle. \<open>cancel("stop")\<close> arrives while the
  machine made with \<open>createStateMachine\<close> goes from \<open>idle\<close> to \<open>working\<close>: the run throws
  at the next check and the machine is left in the state \<open>working\<close>.
\<close>

theorem C4_counterexample:
  "fst (research example_config garbage_services steady ''q''
          (cancel ''stop'' (new_StateMachine Idle)) (new_AgentWorld fresh_manager))
     = Inl (Error_cancelled (Some ''stop''))
   \<and> currentState (fst (snd (research example_config garbage_services steady ''q''
          (cancel ''stop'' (new_StateMachine Idle)) (new_AgentWorld fresh_manager))))
       = State Idle
   \<and> fst (research example_config garbage_services cancelling ''q''
            (new_StateMachine Idle) (new_AgentWorld fresh_manager))
       = Inl (ConfigurationError ''Query not initialized'')
   \<and> isCancelled (fst (snd (research example_config garbage_services cancelling ''q''
            (new_StateMachine Idle) (new_AgentWorld fresh_manager))))
   \<and> currentState (fst (snd (research example_config garbage_services cancelling ''q''
            (new_StateMachine Idle) (new_AgentWorld fresh_manager))))
       = State Idle
   \<and> fst (run toy_machine cancelling (new_StateMachine ''idle'') ())
       = Inl (Error_cancelled (Some ''stop''))
   \<and> currentState (fst (snd (run toy_machine cancelling (new_StateMachine ''idle'') ())))
       = State ''working''"
  by code_simp

subsection \<open>What does not look at the budget\<close>
























subsection \<open>What the handlers throw\<close>






























end
